theory Spec2Isabelle
  imports Main "HOL-Library.Sublist" "HOL-Library.AList"
begin

section \<open>Text\<close>

text \<open>
  The processor works on Python \<open>str\<close> values. The embedding takes the text over the
  Latin-1 repertoire: a \<^typ>\<open>char\<close> is the code point \<open>0 .. 255\<close> of one character of the
  query (Portuguese text lies in this range). On this repertoire \<open>str.lower()\<close> maps
  \<open>A-Z\<close>, \<open>U+00C0 .. U+00D6\<close> and \<open>U+00D8 .. U+00DE\<close> to the character 32 places later and
  leaves every other character alone; the class \<open>\d\<close> of the \<open>re\<close> module is \<open>0-9\<close>; and
  the class \<open>\s\<close> is \<open>U+0009 .. U+000D\<close>, \<open>U+001C .. U+0020\<close>, \<open>U+0085\<close> and \<open>U+00A0\<close>.
\<close>

definition ord :: "char \<Rightarrow> nat" where
  "ord c = of_char c"

definition lower_chr :: "char \<Rightarrow> char" where
  "lower_chr c =
     (if (65 \<le> ord c \<and> ord c \<le> 90) \<or> (192 \<le> ord c \<and> ord c \<le> 222 \<and> ord c \<noteq> 215)
      then char_of (ord c + 32) else c)"

definition lower :: "string \<Rightarrow> string" where
  "lower s = map lower_chr s"

definition is_digit :: "char \<Rightarrow> bool" where
  "is_digit c = (48 \<le> ord c \<and> ord c \<le> 57)"

definition is_space :: "char \<Rightarrow> bool" where
  "is_space c = ((9 \<le> ord c \<and> ord c \<le> 13) \<or> (28 \<le> ord c \<and> ord c \<le> 32)
                 \<or> ord c = 133 \<or> ord c = 160)"

text \<open>The accented letters the patterns and the SQL comments use.\<close>

definition a_acute :: char where "a_acute = CHR 0xE1"
definition a_tilde :: char where "a_tilde = CHR 0xE3"
definition c_cedil :: char where "c_cedil = CHR 0xE7"
definition e_acute :: char where "e_acute = CHR 0xE9"
definition i_acute :: char where "i_acute = CHR 0xED"
definition o_acute :: char where "o_acute = CHR 0xF3"
definition o_tilde :: char where "o_tilde = CHR 0xF5"
definition u_acute :: char where "u_acute = CHR 0xFA"

section \<open>Regular expressions of the \<open>re\<close> module\<close>

text \<open>
  Only the constructs the processor's patterns use: literal text, \<open>.\<close>, character
  classes, greedy \<open>*\<close> and \<open>+\<close> (in the patterns always on a single-character atom), greedy
  \<open>?\<close>, sequence, alternation and numbered capture groups.
\<close>

datatype citem = Ch char | Rng char char | Digit | Space

fun in_citem :: "citem \<Rightarrow> char \<Rightarrow> bool" where
  "in_citem (Ch c) x = (x = c)"
| "in_citem (Rng a b) x = (ord a \<le> ord x \<and> ord x \<le> ord b)"
| "in_citem Digit x = is_digit x"
| "in_citem Space x = is_space x"

datatype atom = AnyChar | Cls "citem list"

fun atom_ok :: "atom \<Rightarrow> char \<Rightarrow> bool" where
  "atom_ok AnyChar x = (x \<noteq> CHR 0x0A)"
| "atom_ok (Cls items) x = list_ex (\<lambda>i. in_citem i x) items"

datatype regex =
    Str string
  | One atom
  | Star atom
  | Plus atom
  | Opt regex
  | Seq regex regex
  | Alt regex regex
  | Grp nat regex

definition seqs :: "regex list \<Rightarrow> regex" where
  "seqs rs = foldr Seq (butlast rs) (last rs)"

definition alts :: "regex list \<Rightarrow> regex" where
  "alts rs = foldr Alt (butlast rs) (last rs)"

type_synonym groups = "(nat \<times> string) list"

text \<open>
  The matcher is the backtracking matcher of \<open>re\<close>: \<open>matches r s g\<close> lists, in the order
  in which backtracking tries them, the ways \<open>r\<close> matches a prefix of \<open>s\<close>, each as the
  capture groups after the match and the text that is left. A greedy repetition tries the
  longest run first; \<open>?\<close> tries its body first; an alternation tries its left branch first.
\<close>

fun matches :: "regex \<Rightarrow> string \<Rightarrow> groups \<Rightarrow> (groups \<times> string) list" where
  "matches (Str w) s g = (if prefix w s then [(g, drop (length w) s)] else [])"
| "matches (One a) s g =
     (case s of [] \<Rightarrow> [] | c # cs \<Rightarrow> if atom_ok a c then [(g, cs)] else [])"
| "matches (Star a) s g =
     map (\<lambda>n. (g, drop n s)) (rev [0 ..< Suc (length (takeWhile (atom_ok a) s))])"
| "matches (Plus a) s g =
     map (\<lambda>n. (g, drop n s)) (rev [1 ..< Suc (length (takeWhile (atom_ok a) s))])"
| "matches (Opt r) s g = matches r s g @ [(g, s)]"
| "matches (Seq r1 r2) s g =
     concat (map (\<lambda>(g', rest). matches r2 rest g') (matches r1 s g))"
| "matches (Alt r1 r2) s g = matches r1 s g @ matches r2 s g"
| "matches (Grp n r) s g =
     map (\<lambda>(g', rest). ((n, take (length s - length rest) s) # g', rest)) (matches r s g)"

text \<open>\<open>re.match\<close>: the first way the pattern matches at the start of the text.\<close>

definition re_match :: "regex \<Rightarrow> string \<Rightarrow> groups option" where
  "re_match r s = (case matches r s [] of [] \<Rightarrow> None | (g, rest) # _ \<Rightarrow> Some g)"

text \<open>\<open>re.search\<close>: the first start position, from the left, at which the pattern matches.\<close>

fun re_search :: "regex \<Rightarrow> string \<Rightarrow> groups option" where
  "re_search r [] = re_match r []"
| "re_search r (c # cs) =
     (case re_match r (c # cs) of Some g \<Rightarrow> Some g | None \<Rightarrow> re_search r cs)"

text \<open>\<open>match.group(n)\<close> of a group that took part in the match.\<close>

definition group :: "groups \<Rightarrow> nat \<Rightarrow> string" where
  "group g n = (case map_of g n of Some t \<Rightarrow> t | None \<Rightarrow> [])"

section \<open>Intents and their patterns\<close>

datatype intent =
    HIGH_CPU | MEMORY_USAGE | DISK_USAGE | HOST_STATUS | HOST_UPTIME
  | UNAVAILABLE_SERVICES | ALERT_SUMMARY | GRAPH_REQUEST | HOST_MAINTENANCE
  | GENERAL_QUERY | UNKNOWN

definition hosts_or_servers :: regex where
  \<comment> \<open>\<open>(?:hosts?|servidore?s?)\<close>\<close>
  "hosts_or_servers =
     alts [seqs [Str ''host'', Opt (Str ''s'')],
           seqs [Str ''servidor'', Opt (Str ''e''), Opt (Str ''s'')]]"

definition high_words :: regex where
  \<comment> \<open>\<open>(?:alta|elevad[ao]|acima|maior)\<close>\<close>
  "high_words =
     alts [Str ''alta'', seqs [Str ''elevad'', One (Cls [Ch CHR ''a'', Ch CHR ''o''])],
           Str ''acima'', Str ''maior'']"

definition above_number :: regex where
  \<comment> \<open>\<open>(?:acima|maior).*(?:\d+)[%\s]\<close>\<close>
  "above_number =
     seqs [alts [Str ''acima'', Str ''maior''], Star AnyChar, Plus (Cls [Digit]),
           One (Cls [Ch CHR ''%'', Space])]"

definition memoria :: regex where
  \<comment> \<open>\<open>mem[\xf3o]ria\<close>\<close>
  "memoria = seqs [Str ''mem'', One (Cls [Ch o_acute, Ch CHR ''o'']), Str ''ria'']"

definition estao :: regex where
  \<comment> \<open>\<open>est[\xe1a][\xe3o]o\<close>\<close>
  "estao = seqs [Str ''est'', One (Cls [Ch a_acute, Ch CHR ''a'']),
                 One (Cls [Ch a_tilde, Ch CHR ''o'']), Str ''o'']"

definition servicos :: regex where
  \<comment> \<open>\<open>(?:servi[\xe7c]os?|aplica[\xe7c][\xf5o]es?)\<close>\<close>
  "servicos =
     alts [seqs [Str ''servi'', One (Cls [Ch c_cedil, Ch CHR ''c'']), Str ''o'', Opt (Str ''s'')],
           seqs [Str ''aplica'', One (Cls [Ch c_cedil, Ch CHR ''c'']),
                 One (Cls [Ch o_tilde, Ch CHR ''o'']), Str ''e'', Opt (Str ''s'')]]"

definition indisponivel :: regex where
  \<comment> \<open>\<open>indispon[\xedi]ve(?:l|is)\<close>\<close>
  "indisponivel =
     seqs [Str ''indispon'', One (Cls [Ch i_acute, Ch CHR ''i'']), Str ''ve'',
           alts [Str ''l'', Str ''is'']]"

definition resumo :: regex where
  \<comment> \<open>\<open>(?:resumo|sum[\xe1a]rio)\<close>\<close>
  "resumo =
     alts [Str ''resumo'', seqs [Str ''sum'', One (Cls [Ch a_acute, Ch CHR ''a'']), Str ''rio'']]"

definition grafico :: regex where
  \<comment> \<open>\<open>(?:gr[\xe1a]fico|chart)\<close>\<close>
  "grafico =
     alts [seqs [Str ''gr'', One (Cls [Ch a_acute, Ch CHR ''a'']), Str ''fico''], Str ''chart'']"

definition manutencao :: regex where
  \<comment> \<open>\<open>manuten[\xe7c][\xe3a]o\<close>\<close>
  "manutencao =
     seqs [Str ''manuten'', One (Cls [Ch c_cedil, Ch CHR ''c'']),
           One (Cls [Ch a_tilde, Ch CHR ''a'']), Str ''o'']"

text \<open>
  \<open>intent_patterns\<close> is a Python dict literal: iterating \<open>items()\<close> yields the entries in the
  order in which they are written, which the association list keeps.
\<close>

definition intent_patterns :: "(intent \<times> regex list) list" where
  "intent_patterns =
    [(HIGH_CPU,
       [seqs [hosts_or_servers, Star AnyChar, alts [Str ''cpu'', Str ''processador''],
              Star AnyChar, high_words],
        seqs [Str ''cpu'', Star AnyChar, above_number],
        seqs [Str ''quai'', Opt (Str ''s''), Str '' host'', Opt (Str ''s''), Str '' '',
              alts [estao, Str ''com''], Str '' cpu '', alts [Str ''alta'', Str ''acima'']]]),
     (MEMORY_USAGE,
       [seqs [hosts_or_servers, Star AnyChar, alts [memoria, Str ''ram''],
              Star AnyChar, high_words],
        seqs [alts [memoria, Str ''ram''], Star AnyChar, above_number],
        seqs [Str ''uso de '', memoria]]),
     (DISK_USAGE,
       [seqs [hosts_or_servers, Star AnyChar,
              alts [Str ''disco'', Str ''armazenamento'', Str ''fs'', Str ''filesystem''],
              Star AnyChar, high_words],
        seqs [alts [Str ''disco'', Str ''armazenamento''], Star AnyChar, above_number],
        Str ''uso de disco'']),
     (HOST_STATUS,
       [seqs [Str ''status'', Star AnyChar, hosts_or_servers],
        seqs [hosts_or_servers, Star AnyChar, alts [Str ''status'', Str ''estado'']],
        seqs [Str ''quai'', Opt (Str ''s''), Str '' host'', Opt (Str ''s''), Str '' '',
              estao, Str '' '',
              alts [Str ''online'', Str ''offline'', Str ''down'', Str ''up'']]]),
     (HOST_UPTIME,
       [seqs [Str ''uptime'', Star AnyChar, hosts_or_servers],
        seqs [hosts_or_servers, Star AnyChar, Str ''uptime''],
        seqs [alts [Str ''quanto tempo'', Str ''desde quando''], Star AnyChar,
              hosts_or_servers, Star AnyChar,
              alts [Str ''online'',
                    seqs [Str ''ativ'', One (Cls [Ch CHR ''o'', Ch CHR ''a'']), Opt (Str ''s'')]]]]),
     (UNAVAILABLE_SERVICES,
       [seqs [servicos, Star AnyChar,
              alts [indisponivel, Str ''offline'', Str ''down'', Str ''fora do ar'']],
        seqs [Str ''quai'', Opt (Str ''s''), Star AnyChar, servicos, Star AnyChar, estao,
              Star AnyChar, alts [indisponivel, Str ''offline'', Str ''down'']]]),
     (ALERT_SUMMARY,
       [seqs [resumo, Star AnyChar, alts [Str ''alerta'', Str ''problema''], Opt (Str ''s'')],
        seqs [alts [Str ''alerta'', Str ''problema''], Opt (Str ''s''), Star AnyChar, resumo],
        seqs [alts [Str ''alertas'', Str ''problemas''], Star AnyChar,
              alts [seqs [Str ''cr'', One (Cls [Ch i_acute, Ch CHR ''i'']), Str ''tico''],
                    Str ''grave''],
              Opt (Str ''s'')]]),
     (GRAPH_REQUEST,
       [seqs [grafico, Star AnyChar,
              alts [Str ''cpu'', memoria, Str ''ram'', Str ''disco'', Str ''rede'',
                    Str ''network'']],
        seqs [alts [seqs [Str ''gera'', Opt (Str ''r'')], seqs [Str ''cria'', Opt (Str ''r'')],
                    seqs [Str ''mostra'', Opt (Str ''r'')]],
              Star AnyChar, grafico],
        seqs [Str ''visualiza'', Opt (Str ''r''), Star AnyChar, grafico]]),
     (HOST_MAINTENANCE,
       [seqs [alts [seqs [Str ''coloca'', Opt (Str ''r'')], seqs [Str ''coloca'', Opt (Str ''r'')],
                    seqs [Str ''po'', Opt (Str ''r'')], seqs [Str ''bota'', Opt (Str ''r'')]],
              Star AnyChar,
              alts [seqs [Str ''em '', manutencao], Str ''manutenir'']],
        seqs [manutencao, Star AnyChar, hosts_or_servers],
        seqs [hosts_or_servers, Star AnyChar, manutencao]])]"

text \<open>
  \<open>detect_intent\<close>: the outer loop over the table and the inner loop over the patterns of
  one intent, returning at the first pattern that \<open>re.search\<close> finds in the lower-cased
  query.
\<close>

fun any_pattern :: "regex list \<Rightarrow> string \<Rightarrow> bool" where
  "any_pattern [] s = False"
| "any_pattern (p # ps) s = (if re_search p s \<noteq> None then True else any_pattern ps s)"

fun scan_intents :: "(intent \<times> regex list) list \<Rightarrow> string \<Rightarrow> intent" where
  "scan_intents [] s = GENERAL_QUERY"
| "scan_intents ((i, ps) # rest) s = (if any_pattern ps s then i else scan_intents rest s)"

definition detect_intent :: "string \<Rightarrow> intent" where
  "detect_intent query = scan_intents intent_patterns (lower query)"


section \<open>Parameter extraction\<close>

definition colon_space :: atom where
  \<comment> \<open>\<open>[:\s]\<close>\<close>
  "colon_space = Cls [Ch CHR '':'', Space]"

definition time_units :: regex where
  \<comment> \<open>\<open>minutos?|horas?|dias?|m|h|d\<close>\<close>
  "time_units =
     alts [seqs [Str ''minuto'', Opt (Str ''s'')], seqs [Str ''hora'', Opt (Str ''s'')],
           seqs [Str ''dia'', Opt (Str ''s'')], Str ''m'', Str ''h'', Str ''d'']"

definition host_class :: atom where
  \<comment> \<open>\<open>[a-zA-Z0-9\-_\.]\<close>\<close>
  "host_class =
     Cls [Rng CHR ''a'' CHR ''z'', Rng CHR ''A'' CHR ''Z'', Rng CHR ''0'' CHR ''9'',
          Ch CHR ''-'', Ch CHR ''_'', Ch CHR ''.'']"

definition host_pattern :: regex where
  \<comment> \<open>\<open>(?:host|servidor[a]?|maquina)[:\s]+([a-zA-Z0-9\-_\.]+)\<close>\<close>
  "host_pattern =
     seqs [alts [Str ''host'', seqs [Str ''servidor'', Opt (One (Cls [Ch CHR ''a'']))],
                 Str ''maquina''],
           Plus colon_space,
           Grp 1 (Plus host_class)]"

definition threshold_pattern :: regex where
  \<comment> \<open>\<open>(?:acima|maior|superior|mais)[:\s]+(?:de|que)?[:\s]*(\d+)[%\s]\<close>\<close>
  "threshold_pattern =
     seqs [alts [Str ''acima'', Str ''maior'', Str ''superior'', Str ''mais''],
           Plus colon_space, Opt (alts [Str ''de'', Str ''que'']), Star colon_space,
           Grp 1 (Plus (Cls [Digit])), One (Cls [Ch CHR ''%'', Space])]"

definition period_pattern :: regex where
  \<comment> \<open>\<open>(?:\xfaltim(?:as?|os?))[:\s]+(\d+)[:\s]*(minutos?|horas?|dias?|m|h|d)\<close>\<close>
  "period_pattern =
     seqs [Str (u_acute # ''ltim''),
           alts [seqs [Str ''a'', Opt (Str ''s'')], seqs [Str ''o'', Opt (Str ''s'')]],
           Plus colon_space, Grp 1 (Plus (Cls [Digit])), Star colon_space, Grp 2 time_units]"

definition duration_pattern :: regex where
  \<comment> \<open>\<open>(?:por|durante)[:\s]+(\d+)[:\s]*(minutos?|horas?|dias?|m|h|d)\<close>\<close>
  "duration_pattern =
     seqs [alts [Str ''por'', Str ''durante''],
           Plus colon_space, Grp 1 (Plus (Cls [Digit])), Star colon_space, Grp 2 time_units]"

text \<open>The exceptions that the modelled code can raise.\<close>

datatype py_error =
    OverflowError
  | ValueError
  | IndexError
  | KeyError string
  | ZabbixAPIException string

text \<open>
  \<open>int(s)\<close> on a run of decimal digits and \<open>str(n)\<close> (the \<open>{value}\<close> of an f-string) on a
  natural number, as in an interpreter that puts no limit on the number of digits of
  such a conversion.
\<close>

definition py_int :: "string \<Rightarrow> nat" where
  "py_int s = foldl (\<lambda>n c. 10 * n + (ord c - 48)) 0 s"

fun py_str :: "nat \<Rightarrow> string" where
  "py_str n =
     (if n < 10 then [char_of (48 + n)] else py_str (n div 10) @ [char_of (48 + n mod 10)])"

text \<open>\<open>s[0]\<close> as a string of one character; it raises \<open>IndexError\<close> on the empty string.\<close>

definition first_chr :: "string \<Rightarrow> py_error + string" where
  "first_chr s = (case s of [] \<Rightarrow> Inl IndexError | c # _ \<Rightarrow> Inr [c])"

text \<open>The truth value of an \<open>Optional[str]\<close>: \<open>None\<close> and the empty string are false.\<close>

definition truthy :: "string option \<Rightarrow> bool" where
  "truthy v = (case v of None \<Rightarrow> False | Some s \<Rightarrow> s \<noteq> [])"

definition extract_host :: "string \<Rightarrow> string option" where
  "extract_host query =
     (case re_search host_pattern (lower query) of
        Some m \<Rightarrow> Some (group m 1)
      | None \<Rightarrow> None)"

definition extract_threshold :: "string \<Rightarrow> nat \<Rightarrow> nat" where
  "extract_threshold query dflt =
     (case re_search threshold_pattern (lower query) of
        Some m \<Rightarrow> py_int (group m 1)
      | None \<Rightarrow> dflt)"

section \<open>Time ranges\<close>

text \<open>
  The clock is a parameter: \<open>now\<close> is the reading of \<open>datetime.now()\<close> in whole seconds
  since the epoch, taken once per call, in a process whose local time zone is UTC (so that
  local wall-clock arithmetic and \<open>timestamp()\<close> agree with arithmetic on epoch seconds).
  A \<open>timedelta\<close> is its length in seconds; its constructor raises \<open>OverflowError\<close> when the
  length exceeds 999999999 days. A \<open>datetime\<close> is its epoch second; subtracting a
  \<open>timedelta\<close> raises \<open>OverflowError\<close> when the result lies before year 1, and
  \<open>timestamp()\<close> of a naive \<open>datetime\<close> raises \<open>ValueError\<close> within a day of that limit
  (it probes the local time one day earlier).
\<close>

definition timedelta :: "nat \<Rightarrow> py_error + nat" where
  "timedelta seconds =
     (if seconds div 86400 > 999999999 then Inl OverflowError else Inr seconds)"

definition datetime_min :: int where
  "datetime_min = - 62135596800"

definition datetime_sub :: "int \<Rightarrow> nat \<Rightarrow> py_error + int" where
  "datetime_sub t delta =
     (if t - int delta < datetime_min then Inl OverflowError else Inr (t - int delta))"

definition timestamp :: "int \<Rightarrow> py_error + int" where
  "timestamp t = (if t - 86400 < datetime_min then Inl ValueError else Inr t)"

record TimeRange =
  from_timestamp :: int
  to_timestamp :: int
  time_period :: string

text \<open>
  \<open>TimeRange.from_period\<close>. The tail shared by the two returns of the source,
  \<open>int((now - delta).timestamp())\<close> and the constructor call, is \<open>range_before\<close>.
\<close>

definition range_before :: "nat \<Rightarrow> py_error + nat \<Rightarrow> string \<Rightarrow> py_error + TimeRange" where
  "range_before now delta period_str =
     (case delta of
        Inl e \<Rightarrow> Inl e
      | Inr d \<Rightarrow>
          (case datetime_sub (int now) d of
             Inl e \<Rightarrow> Inl e
           | Inr t \<Rightarrow>
               (case timestamp t of
                  Inl e \<Rightarrow> Inl e
                | Inr from_ts \<Rightarrow>
                    Inr \<lparr>from_timestamp = from_ts, to_timestamp = int now,
                         time_period = period_str\<rparr>)))"

definition period_regex :: regex where
  \<comment> \<open>\<open>(\d+)([dhm])\<close>\<close>
  "period_regex =
     seqs [Grp 1 (Plus (Cls [Digit])),
           Grp 2 (One (Cls [Ch CHR ''d'', Ch CHR ''h'', Ch CHR ''m'']))]"

definition from_period :: "nat \<Rightarrow> string \<Rightarrow> py_error + TimeRange" where
  "from_period now period =
     (case re_match period_regex (lower period) of
        None \<Rightarrow> range_before now (timedelta (24 * 3600)) ''24h''
      | Some m \<Rightarrow>
          (let val = py_int (group m 1); unit = group m 2 in
           if unit = ''m'' then range_before now (timedelta (val * 60)) (py_str val @ ''m'')
           else if unit = ''h'' then range_before now (timedelta (val * 3600)) (py_str val @ ''h'')
           else if unit = ''d'' then range_before now (timedelta (val * 86400)) (py_str val @ ''d'')
           else range_before now (timedelta (24 * 3600)) ''24h''))"

definition extract_time_range :: "nat \<Rightarrow> string \<Rightarrow> py_error + TimeRange" where
  "extract_time_range now query =
     (case re_search period_pattern (lower query) of
        Some m \<Rightarrow>
          (let val = py_int (group m 1) in
           case first_chr (group m 2) of
             Inl e \<Rightarrow> Inl e
           | Inr c \<Rightarrow>
               (let unit = lower c in
                if unit = ''m'' \<or> prefix ''m'' unit then from_period now (py_str val @ ''m'')
                else if unit = ''h'' \<or> prefix ''h'' unit then from_period now (py_str val @ ''h'')
                else if unit = ''d'' \<or> prefix ''d'' unit then from_period now (py_str val @ ''d'')
                else from_period now ''24h''))
      | None \<Rightarrow> from_period now ''24h'')"

definition extract_duration :: "string \<Rightarrow> nat \<Rightarrow> py_error + nat" where
  "extract_duration query dflt =
     (case re_search duration_pattern (lower query) of
        Some m \<Rightarrow>
          (let val = py_int (group m 1) in
           case first_chr (group m 2) of
             Inl e \<Rightarrow> Inl e
           | Inr c \<Rightarrow>
               (let unit = lower c in
                if unit = ''m'' \<or> prefix ''m'' unit then Inr val
                else if unit = ''h'' \<or> prefix ''h'' unit then Inr (val * 60)
                else if unit = ''d'' \<or> prefix ''d'' unit then Inr (val * 60 * 24)
                else Inr dflt))
      | None \<Rightarrow> Inr dflt)"

section \<open>SQL synthesis\<close>

text \<open>
  The entries of the context dict that \<open>generate_sql\<close> returns beside the SQL text. A
  Python dict keeps its keys in insertion order and assignment to a present key replaces
  the value in place, which is \<open>AList.update\<close> on an association list.
\<close>

datatype ctx_value =
    CIntent intent
  | CStr string
  | CInt nat
  | CRange TimeRange

type_synonym sql_context = "(string \<times> ctx_value) list"

text \<open>A triple-quoted literal, given by its lines.\<close>

fun join_lines :: "string list \<Rightarrow> string" where
  "join_lines [] = []"
| "join_lines [l] = l"
| "join_lines (l # ls) = l @ CHR 0x0A # join_lines ls"

definition sql_high_cpu :: string where
  "sql_high_cpu =
     join_lines
     ['''',
      ''            -- Hosts com CPU acima do threshold'',
      ''            SELECT h.hostid, h.name,'',
      ''                   100 - AVG(hu.value) AS cpu_usage'',
      ''            FROM hosts h'',
      ''            JOIN items i ON h.hostid = i.hostid'',
      ''            JOIN history_uint hu ON i.itemid = hu.itemid'',
      ''            WHERE i.key_ = '' @ [CHR 0x27] @ ''system.cpu.util[,idle]'' @ [CHR 0x27],
      ''              AND hu.clock > :from_time'',
      ''              AND hu.clock <= :to_time'',
      ''            '']"

definition sql_high_cpu_group :: string where
  "sql_high_cpu_group =
     join_lines
     ['''',
      ''            GROUP BY h.hostid, h.name'',
      ''            HAVING 100 - AVG(hu.value) > :threshold'',
      ''            ORDER BY cpu_usage DESC;'',
      ''            '']"

definition sql_memory_usage :: string where
  "sql_memory_usage =
     join_lines
     ['''',
      ''            -- Hosts com uso de mem'' @ [o_acute] @ ''ria acima do threshold'',
      ''            SELECT h.hostid, h.name,'',
      ''                   (1 - AVG(hm.value) / AVG(ht.value)) * 100 AS memory_usage'',
      ''            FROM hosts h'',
      ''            JOIN items im ON h.hostid = im.hostid'',
      ''            JOIN items it ON h.hostid = it.hostid'',
      ''            JOIN history hm ON im.itemid = hm.itemid'',
      ''            JOIN history ht ON it.itemid = ht.itemid'',
      ''            WHERE im.key_ = '' @ [CHR 0x27] @ ''vm.memory.size[available]'' @ [CHR 0x27],
      ''              AND it.key_ = '' @ [CHR 0x27] @ ''vm.memory.size[total]'' @ [CHR 0x27],
      ''              AND hm.clock > :from_time'',
      ''              AND hm.clock <= :to_time'',
      ''              AND ht.clock > :from_time'',
      ''              AND ht.clock <= :to_time'',
      ''            '']"

definition sql_memory_usage_group :: string where
  "sql_memory_usage_group =
     join_lines
     ['''',
      ''            GROUP BY h.hostid, h.name'',
      ''            HAVING (1 - AVG(hm.value) / AVG(ht.value)) * 100 > :threshold'',
      ''            ORDER BY memory_usage DESC;'',
      ''            '']"

definition sql_host_status :: string where
  "sql_host_status =
     join_lines
     ['''',
      ''            -- Status dos hosts'',
      ''            SELECT h.hostid, h.name,'',
      ''                   CASE h.status'',
      ''                       WHEN 0 THEN '' @ [CHR 0x27] @ ''Enabled'' @ [CHR 0x27],
      ''                       WHEN 1 THEN '' @ [CHR 0x27] @ ''Disabled'' @ [CHR 0x27],
      ''                       ELSE '' @ [CHR 0x27] @ ''Unknown'' @ [CHR 0x27],
      ''                   END AS status,'',
      ''                   CASE h.available'',
      ''                       WHEN 0 THEN '' @ [CHR 0x27] @ ''Unknown'' @ [CHR 0x27],
      ''                       WHEN 1 THEN '' @ [CHR 0x27] @ ''Available'' @ [CHR 0x27],
      ''                       WHEN 2 THEN '' @ [CHR 0x27] @ ''Unavailable'' @ [CHR 0x27],
      ''                       ELSE '' @ [CHR 0x27] @ ''Unknown'' @ [CHR 0x27],
      ''                   END AS availability'',
      ''            FROM hosts h'',
      ''            '']"

definition sql_host_uptime :: string where
  "sql_host_uptime =
     join_lines
     ['''',
      ''            -- Uptime dos hosts'',
      ''            SELECT h.hostid, h.name,'',
      ''                   hu.value AS uptime_seconds,'',
      ''                   hu.value / 86400 AS uptime_days'',
      ''            FROM hosts h'',
      ''            JOIN items i ON h.hostid = i.hostid'',
      ''            JOIN history_uint hu ON i.itemid = hu.itemid'',
      ''            WHERE i.key_ = '' @ [CHR 0x27] @ ''system.uptime'' @ [CHR 0x27],
      ''              AND hu.clock > (UNIX_TIMESTAMP() - 300)'',
      ''            '']"

definition sql_unavailable_services :: string where
  "sql_unavailable_services =
     join_lines
     ['''',
      ''            -- Servi'' @ [c_cedil] @ ''os indispon'' @ [i_acute] @ ''veis'',
      ''            SELECT h.hostid, h.name AS host,'',
      ''                   i.name AS service,'',
      ''                   FROM_UNIXTIME(t.lastchange) AS since,'',
      ''                   t.description AS problem'',
      ''            FROM triggers t'',
      ''            JOIN functions f ON t.triggerid = f.triggerid'',
      ''            JOIN items i ON f.itemid = i.itemid'',
      ''            JOIN hosts h ON i.hostid = h.hostid'',
      ''            WHERE t.value = 1'',
      ''              AND t.status = 0'',
      ''              AND t.state = 0'',
      ''            '']"

definition sql_alert_summary :: string where
  "sql_alert_summary =
     join_lines
     ['''',
      ''            -- Resumo de alertas'',
      ''            SELECT p.eventid,'',
      ''                   h.name AS host,'',
      ''                   p.name AS problem,'',
      ''                   p.severity,'',
      ''                   FROM_UNIXTIME(p.clock) AS timestamp,'',
      ''                   p.r_eventid IS NOT NULL AS resolved'',
      ''            FROM problem p'',
      ''            JOIN events e ON p.eventid = e.eventid'',
      ''            JOIN triggers t ON e.objectid = t.triggerid'',
      ''            JOIN functions f ON t.triggerid = f.triggerid'',
      ''            JOIN items i ON f.itemid = i.itemid'',
      ''            JOIN hosts h ON i.hostid = h.hostid'',
      ''            WHERE p.clock > :from_time'',
      ''              AND p.clock <= :to_time'',
      ''            '']"

definition sql_general :: string where
  "sql_general =
     join_lines
     ['''',
      ''            -- Consulta gen'' @ [e_acute] @ ''rica'',
      ''            SELECT h.hostid, h.name, h.status, h.available'',
      ''            FROM hosts h'',
      ''            WHERE 1=1'',
      ''            '']"

text \<open>
  The step every branch of \<open>generate_sql\<close> repeats: \<open>if host:\<close> append the filter clause to
  the statement and bind \<open>host_pattern\<close> to \<open>%host%\<close>.
\<close>

definition add_host_filter ::
  "string option \<Rightarrow> string \<Rightarrow> string \<times> sql_context \<Rightarrow> string \<times> sql_context" where
  "add_host_filter host clause sc =
     (case sc of (sql_text, context) \<Rightarrow>
        (case host of
           None \<Rightarrow> (sql_text, context)
         | Some h \<Rightarrow>
             if h \<noteq> [] then
               (sql_text @ clause, AList.update ''host_pattern'' (CStr (''%'' @ h @ ''%'')) context)
             else (sql_text, context)))"

definition finish_sql :: "string \<Rightarrow> string \<times> sql_context \<Rightarrow> string \<times> sql_context" where
  "finish_sql tail sc = (case sc of (sql_text, context) \<Rightarrow> (sql_text @ tail, context))"

definition generate_sql :: "nat \<Rightarrow> string \<Rightarrow> py_error + (string \<times> sql_context)" where
  "generate_sql now query =
     (let intent = detect_intent query;
          context = [(''intent'', CIntent intent), (''query'', CStr query)];
          host = extract_host query;
          context = (case host of
                       None \<Rightarrow> context
                     | Some h \<Rightarrow> if h \<noteq> [] then AList.update ''host'' (CStr h) context
                                else context)
      in case extract_time_range now query of
           Inl e \<Rightarrow> Inl e
         | Inr time_range \<Rightarrow>
            (let context = AList.update ''time_range'' (CRange time_range) context in
             if intent = HIGH_CPU then
               (let threshold = extract_threshold query 80;
                    context = AList.update ''threshold'' (CInt threshold) context
                in Inr (finish_sql sql_high_cpu_group
                     (add_host_filter host '' AND h.name LIKE :host_pattern''
                        (sql_high_cpu, context))))
             else if intent = MEMORY_USAGE then
               (let threshold = extract_threshold query 80;
                    context = AList.update ''threshold'' (CInt threshold) context
                in Inr (finish_sql sql_memory_usage_group
                     (add_host_filter host '' AND h.name LIKE :host_pattern''
                        (sql_memory_usage, context))))
             else if intent = HOST_STATUS then
               Inr (finish_sql '' ORDER BY h.name;''
                     (add_host_filter host '' WHERE h.name LIKE :host_pattern''
                        (sql_host_status, context)))
             else if intent = HOST_UPTIME then
               Inr (finish_sql '' ORDER BY h.name;''
                     (add_host_filter host '' AND h.name LIKE :host_pattern''
                        (sql_host_uptime, context)))
             else if intent = UNAVAILABLE_SERVICES then
               Inr (finish_sql '' ORDER BY t.lastchange DESC;''
                     (add_host_filter host '' AND h.name LIKE :host_pattern''
                        (sql_unavailable_services, context)))
             else if intent = ALERT_SUMMARY then
               Inr (finish_sql '' ORDER BY p.clock DESC;''
                     (add_host_filter host '' AND h.name LIKE :host_pattern''
                        (sql_alert_summary, context)))
             else
               Inr (finish_sql '' ORDER BY h.name;''
                     (add_host_filter host '' AND h.name LIKE :host_pattern''
                        (sql_general, context)))))"

section \<open>API-call and chart synthesis\<close>

text \<open>
  Python values that are handed on as JSON: the params of an API call, the chart
  structure, and the \<open>data\<close> of a response. \<open>JDec m k\<close> is the decimal literal
  \<open>m / 10^k\<close> (the source writes such numbers as literals only).
\<close>

datatype json =
    JNone
  | JBool bool
  | JInt int
  | JDec int nat
  | JStr string
  | JList "json list"
  | JDict "(string \<times> json) list"

text \<open>
  \<open>datetime.now().timestamp() + duration * 60\<close> adds an \<open>int\<close> to a \<open>float\<close>: the \<open>int\<close>
  is converted to a double (53 significant bits, ties to even; \<open>OverflowError\<close> when the
  result does not fit the exponent range), the sum is rounded the same way, and \<open>int()\<close> of
  an infinite sum raises \<open>OverflowError\<close>.
\<close>

fun bit_len :: "nat \<Rightarrow> nat" where
  "bit_len n = (if n = 0 then 0 else Suc (bit_len (n div 2)))"

definition round_double :: "nat \<Rightarrow> nat" where
  "round_double n =
     (if bit_len n \<le> 53 then n
      else (let e = bit_len n - 53; q = n div 2 ^ e; r = n mod 2 ^ e; half = 2 ^ (e - 1)
            in (if r > half \<or> (r = half \<and> odd q) then q + 1 else q) * 2 ^ e))"

definition to_float :: "nat \<Rightarrow> py_error + nat" where
  "to_float n = (if round_double n \<ge> 2 ^ 1024 then Inl OverflowError else Inr (round_double n))"

definition int_of_float_plus :: "nat \<Rightarrow> nat \<Rightarrow> py_error + nat" where
  "int_of_float_plus x n =
     (case to_float n of
        Inl e \<Rightarrow> Inl e
      | Inr y \<Rightarrow>
          if round_double (round_double x + y) \<ge> 2 ^ 1024 then Inl OverflowError
          else Inr (round_double (round_double x + y)))"

text \<open>
  \<open>strftime\<close> for the two formats the code uses, on the proleptic Gregorian calendar in
  UTC: the date of a day number counted from 1970-01-01, and the time of day.
\<close>

definition civil_from_days :: "nat \<Rightarrow> nat \<times> nat \<times> nat" where
  "civil_from_days days =
     (let z = days + 719468;
          era = z div 146097;
          doe = z mod 146097;
          yoe = (doe - doe div 1460 + doe div 36524 - doe div 146096) div 365;
          y = yoe + era * 400;
          doy = doe - (365 * yoe + yoe div 4 - yoe div 100);
          mp = (5 * doy + 2) div 153;
          d = doy - (153 * mp + 2) div 5 + 1;
          m = (if mp < 10 then mp + 3 else mp - 9)
      in (if m \<le> 2 then y + 1 else y, m, d))"

definition pad2 :: "nat \<Rightarrow> string" where
  "pad2 n = (if n < 10 then ''0'' @ py_str n else py_str n)"

definition strftime_date_time :: "nat \<Rightarrow> string" where
  \<comment> \<open>\<open>strftime('%Y-%m-%d %H:%M:%S')\<close>\<close>
  "strftime_date_time t =
     (case civil_from_days (t div 86400) of
        (y, m, d) \<Rightarrow>
          py_str y @ ''-'' @ pad2 m @ ''-'' @ pad2 d @ '' '' @
          pad2 (t div 3600 mod 24) @ '':'' @ pad2 (t div 60 mod 60) @ '':'' @ pad2 (t mod 60))"

definition strftime_hm :: "int \<Rightarrow> string" where
  \<comment> \<open>\<open>strftime("%H:%M")\<close>\<close>
  "strftime_hm t = pad2 (nat (t div 3600 mod 24)) @ '':'' @ pad2 (nat (t div 60 mod 60))"

definition manutencao_txt :: string where
  "manutencao_txt = ''manuten'' @ [c_cedil, a_tilde] @ ''o''"

definition Manutencao_txt :: string where
  "Manutencao_txt = ''Manuten'' @ [c_cedil, a_tilde] @ ''o''"

text \<open>\<open>params["host"] = host\<close> under \<open>if host:\<close>.\<close>

definition with_host :: "string option \<Rightarrow> (string \<times> json) list \<Rightarrow> (string \<times> json) list" where
  "with_host host params =
     (case host of
        None \<Rightarrow> params
      | Some h \<Rightarrow> if h \<noteq> [] then AList.update ''host'' (JStr h) params else params)"

definition generate_api_call ::
  "nat \<Rightarrow> string \<Rightarrow> py_error + (string option \<times> (string \<times> json) list)" where
  "generate_api_call now query =
     (let intent = detect_intent query;
          host = extract_host query
      in case extract_time_range now query of
           Inl e \<Rightarrow> Inl e
         | Inr time_range \<Rightarrow>
             if intent = HOST_MAINTENANCE then
               (case extract_duration query 60 of
                  Inl e \<Rightarrow> Inl e
                | Inr duration \<Rightarrow>
                    (case int_of_float_plus now (duration * 60) of
                       Inl e \<Rightarrow> Inl e
                     | Inr till \<Rightarrow>
                         Inr (Some ''maintenance.create'',
                           [(''name'', JStr (Manutencao_txt @ '' autom'' @ [a_acute] @
                                            ''tica via Zabbia'')),
                            (''active_since'', JInt (int now)),
                            (''active_till'', JInt (int till)),
                            (''hostids'', JList []),
                            (''timeperiods'',
                               JList [JDict [(''timeperiod_type'', JInt 0),
                                             (''period'', JInt (int (duration * 60)))]]),
                            (''description'',
                               JStr (Manutencao_txt @ '' criada via Zabbia em '' @
                                     strftime_date_time now)),
                            (''maintenance_type'', JInt 0)])))
             else if intent = HIGH_CPU then
               (let threshold = extract_threshold query 80 in
                Inr (Some ''item.get'',
                  with_host host
                    [(''output'', JList [JStr ''itemid'', JStr ''name'', JStr ''lastvalue'',
                                        JStr ''units'']),
                     (''selectHosts'', JList [JStr ''hostid'', JStr ''name'']),
                     (''search'', JDict [(''key_'', JStr ''system.cpu.util'')]),
                     (''monitored'', JBool True)]))
             else if intent = HOST_STATUS then
               Inr (Some ''host.get'',
                 (let params =
                    [(''output'', JList [JStr ''hostid'', JStr ''name'', JStr ''status'',
                                        JStr ''available'']),
                     (''selectInterfaces'', JList [JStr ''ip'', JStr ''type'', JStr ''useip'',
                                                  JStr ''main'']),
                     (''selectGroups'', JStr ''extend'')]
                  in case host of
                       None \<Rightarrow> params
                     | Some h \<Rightarrow>
                         if h \<noteq> [] then
                           AList.update ''searchWildcardsEnabled'' (JBool True)
                             (AList.update ''search'' (JDict [(''name'', JStr h)]) params)
                         else params))
             else if intent = UNAVAILABLE_SERVICES then
               Inr (Some ''problem.get'',
                 with_host host
                   [(''output'', JStr ''extend''),
                    (''selectHosts'', JList [JStr ''hostid'', JStr ''name'']),
                    (''recent'', JBool True),
                    (''sortfield'', JList [JStr ''eventid'']),
                    (''sortorder'', JStr ''DESC'')])
             else Inr (None, []))"

definition dataset :: "string \<Rightarrow> string \<Rightarrow> json" where
  "dataset label color =
     JDict [(''label'', JStr label), (''data'', JList []), (''color'', JStr color),
            (''fill'', JBool False)]"

definition host_suffix :: "string option \<Rightarrow> string" where
  \<comment> \<open>\<open>(f" - {host}" if host else "")\<close>\<close>
  "host_suffix host =
     (case host of None \<Rightarrow> [] | Some h \<Rightarrow> if h \<noteq> [] then '' - '' @ h else [])"

definition generate_graph_data :: "nat \<Rightarrow> string \<Rightarrow> py_error + (string \<times> json) list" where
  "generate_graph_data now query =
     (let intent = detect_intent query;
          host = extract_host query
      in case extract_time_range now query of
           Inl e \<Rightarrow> Inl e
         | Inr time_range \<Rightarrow>
            (let chart_data = [(''chartType'', JStr ''line''), (''labels'', JList []),
                               (''datasets'', JList [])]
             in if sublist ''cpu'' (lower query) then
                  Inr (AList.update ''datasets'' (JList [dataset ''CPU %'' ''#1f77b4''])
                        (AList.update ''title'' (JStr (''Uso de CPU'' @ host_suffix host))
                           chart_data))
                else if sublist (''mem'' @ [o_acute] @ ''ria'') (lower query)
                        \<or> sublist ''ram'' (lower query) then
                  Inr (AList.update ''datasets''
                        (JList [dataset (''Mem'' @ [o_acute] @ ''ria %'') ''#ff7f0e''])
                        (AList.update ''title''
                           (JStr (''Uso de Mem'' @ [o_acute] @ ''ria'' @ host_suffix host))
                           chart_data))
                else if sublist ''disco'' (lower query) then
                  Inr (AList.update ''datasets'' (JList [dataset ''Disco %'' ''#2ca02c''])
                        (AList.update ''title'' (JStr (''Uso de Disco'' @ host_suffix host))
                           chart_data))
                else Inr chart_data))"

section \<open>The query endpoint\<close>

text \<open>
  What \<open>process_query\<close> takes from outside the processor: the clock (read as above, once
  per request), the processing time as the text \<open>f"{processing_time:.2f}"\<close> gives it, the
  whole second of \<open>time()\<close> when the response is built, \<open>settings.environment\<close>, the draws of
  \<open>random.randint(10, 90)\<close> in the order in which they are made, and the two calls to the
  Zabbix API client, each returning its value or raising.
\<close>

record env =
  clock :: nat
  elapsed :: string
  clock_end :: nat
  environment :: string
  randint :: "nat \<Rightarrow> nat"
  get_host_by_name :: "string \<Rightarrow> py_error + (string \<times> json) list option"
  set_host_maintenance :: "json \<Rightarrow> string \<Rightarrow> nat \<Rightarrow> py_error + string option"

datatype http_error = HTTPException nat py_error

record ZabbiaResponse =
  response :: string
  data :: "(string \<times> json) list"
  sql :: "string option"
  charts :: "json list option"
  conversation_id :: "string option"

text \<open>
  The four branches of the \<open>if\<close>/\<open>elif\<close> chain, each giving \<open>response_text\<close>, \<open>data\<close>, \<open>sql\<close>
  and \<open>charts\<close> as they stand when the chain is left.
\<close>

type_synonym answer = "string \<times> (string \<times> json) list \<times> string option \<times> json list option"

definition graph_answer :: "env \<Rightarrow> string \<Rightarrow> py_error + answer" where
  "graph_answer E query =
     (case generate_graph_data (clock E) query of
        Inl e \<Rightarrow> Inl e
      | Inr chart_data \<Rightarrow>
          (let chart_data =
                 AList.update ''labels''
                   (JList (map (\<lambda>i. JStr (strftime_hm (int (clock E) - 3600 * int i)))
                             (rev [1 ..< 13])))
                   chart_data;
               chart_data =
                 (case map_of chart_data ''datasets'' of
                    Some (JList (JDict d # ds)) \<Rightarrow>
                      AList.update ''datasets''
                        (JList (JDict (AList.update ''data''
                                         (JList (map (\<lambda>k. JInt (int (randint E k))) [0 ..< 12]))
                                         d) # ds))
                        chart_data
                  | _ \<Rightarrow> chart_data)
           in case map_of chart_data ''title'' of
                None \<Rightarrow> Inl (KeyError ''title'')
              | Some title \<Rightarrow>
                  Inr (''Aqui est'' @ [a_acute] @ '' o gr'' @ [a_acute] @
                       ''fico solicitado para '' @ (case title of JStr t \<Rightarrow> t | _ \<Rightarrow> []),
                       [], None, Some [JDict chart_data])))"

definition maintenance_answer :: "env \<Rightarrow> string \<Rightarrow> string option \<Rightarrow> py_error + answer" where
  "maintenance_answer E query host =
     (case host of
        None \<Rightarrow>
          Inr (''Por favor, especifique qual host deseja colocar em '' @ manutencao_txt @ ''.'',
               [], None, None)
      | Some h \<Rightarrow>
          if h = [] then
            Inr (''Por favor, especifique qual host deseja colocar em '' @ manutencao_txt @ ''.'',
                 [], None, None)
          else
            (case get_host_by_name E h of
               Inl e \<Rightarrow> Inl e
             | Inr host_obj \<Rightarrow>
                 if host_obj = None \<or> host_obj = Some [] then
                   Inr (''Host '' @ [CHR 0x27] @ h @ [CHR 0x27] @ '' n'' @ [a_tilde] @
                        ''o encontrado no Zabbix.'', [], None, None)
                 else
                   (case extract_duration query 60 of
                      Inl e \<Rightarrow> Inl e
                    | Inr duration \<Rightarrow>
                        (case map_of (case host_obj of Some obj \<Rightarrow> obj | None \<Rightarrow> []) ''hostid'' of
                           None \<Rightarrow> Inl (KeyError ''hostid'')
                         | Some hostid \<Rightarrow>
                             (case set_host_maintenance E hostid
                                     (Manutencao_txt @ '' via Zabbia - '' @ h) (duration * 60) of
                                Inl e \<Rightarrow> Inl e
                              | Inr maintenance_id \<Rightarrow>
                                  if truthy maintenance_id then
                                    Inr (''Host '' @ h @ '' colocado em '' @ manutencao_txt @
                                         '' por '' @ py_str duration @ '' minutos.'',
                                         [(''maintenance_id'',
                                             (case maintenance_id of Some i \<Rightarrow> JStr i
                                              | None \<Rightarrow> JNone)),
                                          (''host'', JStr h),
                                          (''duration_minutes'', JInt (int duration))],
                                         None, None)
                                  else
                                    Inr (''Erro ao colocar host '' @ h @ '' em '' @
                                         manutencao_txt @ ''.'', [], None, None))))))"

definition named :: "string \<Rightarrow> (string \<times> json) list \<Rightarrow> json" where
  "named n entries = JDict ((''name'', JStr n) # entries)"

text \<open>
  \<open>context.get("threshold", 80)\<close>; \<open>generate_sql\<close> binds \<open>threshold\<close> to an \<open>int\<close> only.
\<close>

definition get_threshold :: "sql_context \<Rightarrow> nat" where
  "get_threshold context =
     (case map_of context ''threshold'' of Some (CInt n) \<Rightarrow> n | _ \<Rightarrow> 80)"

definition sql_answer :: "env \<Rightarrow> string \<Rightarrow> intent \<Rightarrow> string option \<Rightarrow> py_error + answer" where
  "sql_answer E query intent host =
     (case generate_sql (clock E) query of
        Inl e \<Rightarrow> Inl e
      | Inr (generated_sql, context) \<Rightarrow>
          if intent = HIGH_CPU then
            Inr (''Encontrados '' @ py_str 3 @ '' hosts com CPU acima de '' @
                 py_str (get_threshold context) @ ''%.'',
                 [(''hosts'', JList [named ''web01.example.com'' [(''cpu_usage'', JDec 925 1)],
                                     named ''web02.example.com'' [(''cpu_usage'', JDec 887 1)],
                                     named ''db01.example.com'' [(''cpu_usage'', JDec 853 1)]]),
                  (''count'', JInt 3),
                  (''threshold'', JInt (int (get_threshold context)))],
                 Some generated_sql, None)
          else if intent = HOST_STATUS then
            Inr (''Status atual dos hosts: '' @ py_str 3 @ '' dispon'' @ [i_acute] @ ''veis, '' @
                 py_str 1 @ '' indispon'' @ [i_acute] @ ''veis.'',
                 [(''hosts'',
                    JList [named ''web01.example.com''
                             [(''status'', JStr ''Enabled''), (''availability'', JStr ''Available'')],
                           named ''web02.example.com''
                             [(''status'', JStr ''Enabled''), (''availability'', JStr ''Available'')],
                           named ''db01.example.com''
                             [(''status'', JStr ''Enabled''), (''availability'', JStr ''Available'')],
                           named ''monitor01.example.com''
                             [(''status'', JStr ''Enabled''),
                              (''availability'', JStr ''Unavailable'')]]),
                  (''count'', JInt 4), (''available'', JInt 3), (''unavailable'', JInt 1)],
                 Some generated_sql, None)
          else if intent = UNAVAILABLE_SERVICES then
            Inr (''H'' @ [a_acute] @ '' '' @ py_str 2 @ '' servi'' @ [c_cedil] @
                 ''os indispon'' @ [i_acute] @ ''veis atualmente.'',
                 [(''services'',
                    JList [JDict [(''host'', JStr ''web01.example.com''),
                                  (''service'', JStr ''HTTP Service''),
                                  (''since'', JStr ''2023-06-15T14:30:00'')],
                           JDict [(''host'', JStr ''db01.example.com''),
                                  (''service'', JStr ''MySQL Service''),
                                  (''since'', JStr ''2023-06-15T15:45:00'')]]),
                  (''count'', JInt 2)],
                 Some generated_sql, None)
          else if intent = HOST_UPTIME then
            Inr (''Uptime para '' @
                 (case host of
                    None \<Rightarrow> ''todos os hosts''
                  | Some h \<Rightarrow> if h \<noteq> [] then h else ''todos os hosts'') @ '':'',
                 [(''hosts'', JList [named ''web01.example.com'' [(''uptime_days'', JDec 452 1)],
                                     named ''web02.example.com'' [(''uptime_days'', JDec 127 1)],
                                     named ''db01.example.com'' [(''uptime_days'', JDec 785 1)]])],
                 Some generated_sql, None)
          else if intent = ALERT_SUMMARY then
            Inr (''Resumo de alertas: '' @ py_str 3 @ '' problemas ativos, incluindo '' @
                 py_str 1 @ '' cr'' @ [i_acute] @ ''ticos.'',
                 [(''alerts'',
                    JList [JDict [(''host'', JStr ''web01.example.com''),
                                  (''problem'', JStr ''CPU alto''), (''severity'', JStr ''High'')],
                           JDict [(''host'', JStr ''db01.example.com''),
                                  (''problem'', JStr ''Disco cheio''),
                                  (''severity'', JStr ''Disaster'')],
                           JDict [(''host'', JStr ''web02.example.com''),
                                  (''problem'', JStr (''Servi'' @ [c_cedil] @ ''o HTTP indispon'' @
                                                      [i_acute] @ ''vel'')),
                                  (''severity'', JStr ''Average'')]]),
                  (''count'', JInt 3),
                  (''by_severity'',
                    JDict [(''Disaster'', JInt 1), (''High'', JInt 1), (''Average'', JInt 1)])],
                 Some generated_sql, None)
          else Inr ([], [], Some generated_sql, None))"

definition general_answer :: "env \<Rightarrow> string \<Rightarrow> py_error + answer" where
  "general_answer E query =
     (case generate_api_call (clock E) query of
        Inl e \<Rightarrow> Inl e
      | Inr (method, params) \<Rightarrow>
          if truthy method then
            Inr (''Encontrados '' @ py_str 3 @ '' hosts no sistema.'',
                 [(''hosts'', JList [named ''web01.example.com'' [(''status'', JStr ''Enabled'')],
                                     named ''web02.example.com'' [(''status'', JStr ''Enabled'')],
                                     named ''db01.example.com'' [(''status'', JStr ''Enabled'')]]),
                  (''count'', JInt 3)],
                 None, None)
          else
            Inr (''N'' @ [a_tilde] @ ''o consegui entender sua consulta. '' @
                 ''Pode reformular de outra forma?'', [], None, None))"

definition timing_note :: "env \<Rightarrow> string" where
  "timing_note E =
     (if environment E \<noteq> ''production''
      then [CHR 0x0A, CHR 0x0A] @ ''Consulta processada em '' @ elapsed E @ '' segundos.''
      else [])"

definition process_query ::
  "env \<Rightarrow> string \<Rightarrow> string option \<Rightarrow> http_error + ZabbiaResponse" where
  "process_query E query request_conversation_id =
     (let intent = detect_intent query;
          host = extract_host query;
          answered =
            (case extract_time_range (clock E) query of
               Inl e \<Rightarrow> Inl e
             | Inr time_range \<Rightarrow>
                 if intent = GRAPH_REQUEST then graph_answer E query
                 else if intent = HOST_MAINTENANCE then maintenance_answer E query host
                 else if intent \<in> set [HIGH_CPU, MEMORY_USAGE, HOST_STATUS, HOST_UPTIME,
                                        UNAVAILABLE_SERVICES, ALERT_SUMMARY]
                 then sql_answer E query intent host
                 else general_answer E query)
      in case answered of
           Inl e \<Rightarrow> Inl (HTTPException 500 e)
         | Inr (response_text, data_dict, sql_text, chart_list) \<Rightarrow>
             Inr \<lparr>response = response_text @ timing_note E,
                  data = data_dict,
                  sql = sql_text,
                  charts = chart_list,
                  conversation_id =
                    Some (case request_conversation_id of
                            None \<Rightarrow> ''zabbia-'' @ py_str (clock_end E)
                          | Some c \<Rightarrow> if c \<noteq> [] then c
                                      else ''zabbia-'' @ py_str (clock_end E))\<rparr>)"

section \<open>Notions used to state the properties\<close>

text \<open>The ASCII letters, the digits, and dash, underscore and dot.\<close>

definition host_alphabet :: string where
  "host_alphabet =
     ''abcdefghijklmnopqrstuvwxyz'' @ ''ABCDEFGHIJKLMNOPQRSTUVWXYZ'' @ ''0123456789'' @ ''-_.''"

text \<open>
  The wildcards of the SQL \<open>LIKE\<close> operator, under which \<open>host_pattern\<close> is bound: \<open>%\<close>
  stands for any run of characters and \<open>_\<close> for any single character.
\<close>

definition like_wildcard :: "char \<Rightarrow> bool" where
  "like_wildcard c = (c = CHR ''%'' \<or> c = CHR ''_'')"

text \<open>
  The period tokens of the specification, \<open>^\d+[mhd]$\<close>: one or more digits followed by
  one of \<open>m\<close>, \<open>h\<close>, \<open>d\<close>, and nothing else.
\<close>

definition spec_period_token :: "string \<Rightarrow> bool" where
  "spec_period_token t =
     (t \<noteq> [] \<and> butlast t \<noteq> [] \<and> list_all is_digit (butlast t)
      \<and> last t \<in> set ''mhd'')"


text \<open>A text that begins with one or more digits followed by \<open>d\<close>, \<open>h\<close> or \<open>m\<close>.\<close>

definition period_prefix :: "string \<Rightarrow> bool" where
  "period_prefix s =
     (takeWhile is_digit s \<noteq> [] \<and>
      (case dropWhile is_digit s of [] \<Rightarrow> False | u # _ \<Rightarrow> u \<in> set ''dhm''))"



text \<open>
  Two surroundings for the examples. They agree in everything but the random draws: the
  clock reads 2023-11-14 22:13:20 UTC, the processing time shows as \<open>0.00\<close>, and the
  Zabbix client finds no host.
\<close>

definition example_env :: env where
  "example_env =
     \<lparr>clock = 1700000000, elapsed = ''0.00'', clock_end = 1700000000,
      environment = ''development'', randint = (\<lambda>k. 10),
      get_host_by_name = (\<lambda>h. Inr None),
      set_host_maintenance = (\<lambda>i n d. Inr None)\<rparr>"

definition example_env_other_draws :: env where
  "example_env_other_draws = example_env\<lparr>randint := (\<lambda>k. 90)\<rparr>"

definition query_maintenance_no_host :: string where
  "query_maintenance_no_host = ''colocar em '' @ manutencao_txt"

definition query_maintenance_long_ago :: string where
  "query_maintenance_long_ago =
     ''colocar em '' @ manutencao_txt @ '' nas '' @ [u_acute] @ ''ltimas 9999999999 dias''"

section \<open>Properties of the intent classifier\<close>


lemma any_pattern_iff: "any_pattern ps s \<longleftrightarrow> (\<exists>p\<in>set ps. re_search p s \<noteq> None)"
  by (induction ps) auto

lemma scan_intents_none:
  "(\<forall>k<length tbl. \<not> any_pattern (snd (tbl ! k)) s) \<Longrightarrow> scan_intents tbl s = GENERAL_QUERY"
proof (induction tbl)
  case Nil
  then show ?case by simp
next
  case (Cons e tbl)
  obtain i ps where e: "e = (i, ps)" by (cases e)
  from Cons.prems have "\<not> any_pattern (snd ((e # tbl) ! 0)) s" by blast
  then have no: "\<not> any_pattern ps s" by (simp add: e)
  have "\<forall>k<length tbl. \<not> any_pattern (snd (tbl ! k)) s"
  proof (intro allI impI)
    fix k assume "k < length tbl"
    then have "Suc k < length (e # tbl)" by simp
    with Cons.prems have "\<not> any_pattern (snd ((e # tbl) ! Suc k)) s" by blast
    then show "\<not> any_pattern (snd (tbl ! k)) s" by simp
  qed
  with Cons.IH no show ?case by (simp add: e)
qed

lemma scan_intents_first:
  "k < length tbl \<Longrightarrow> any_pattern (snd (tbl ! k)) s \<Longrightarrow>
   (\<forall>j<k. \<not> any_pattern (snd (tbl ! j)) s) \<Longrightarrow> scan_intents tbl s = fst (tbl ! k)"
proof (induction tbl arbitrary: k)
  case Nil
  then show ?case by simp
next
  case (Cons e tbl)
  obtain i ps where e: "e = (i, ps)" by (cases e)
  show ?case
  proof (cases k)
    case 0
    with Cons.prems show ?thesis by (simp add: e)
  next
    case (Suc k')
    with Cons.prems have "\<not> any_pattern (snd ((e # tbl) ! 0)) s" by blast
    then have no: "\<not> any_pattern ps s" by (simp add: e)
    have k': "k' < length tbl" using Cons.prems(1) Suc by simp
    have hit: "any_pattern (snd (tbl ! k')) s" using Cons.prems(2) Suc by simp
    have "\<forall>j<k'. \<not> any_pattern (snd (tbl ! j)) s"
    proof (intro allI impI)
      fix j assume "j < k'"
      then have "Suc j < k" using Suc by simp
      with Cons.prems(3) have "\<not> any_pattern (snd ((e # tbl) ! Suc j)) s" by blast
      then show "\<not> any_pattern (snd (tbl ! j)) s" by simp
    qed
    with Cons.IH [OF k' hit] have "scan_intents tbl s = fst (tbl ! k')" by blast
    with no show ?thesis by (simp add: e Suc)
  qed
qed

lemma scan_intents_not_later:
  "j < length tbl \<Longrightarrow> any_pattern (snd (tbl ! j)) s \<Longrightarrow>
   \<exists>i\<le>j. scan_intents tbl s = fst (tbl ! i)"
proof (induction tbl arbitrary: j)
  case Nil
  then show ?case by simp
next
  case (Cons e tbl)
  obtain i ps where e: "e = (i, ps)" by (cases e)
  show ?case
  proof (cases "any_pattern ps s")
    case True
    then have "scan_intents (e # tbl) s = fst ((e # tbl) ! 0)" by (simp add: e)
    then show ?thesis by blast
  next
    case False
    then obtain j' where j: "j = Suc j'" using Cons.prems(2) by (cases j) (auto simp: e)
    with Cons.prems have "j' < length tbl" "any_pattern (snd (tbl ! j')) s" by simp_all
    from Cons.IH [OF this] obtain i' where "i' \<le> j'" "scan_intents tbl s = fst (tbl ! i')"
      by blast
    with False have "Suc i' \<le> j \<and> scan_intents (e # tbl) s = fst ((e # tbl) ! Suc i')"
      by (simp add: e j)
    then show ?thesis by blast
  qed
qed

lemma intent_order:
  "map fst intent_patterns =
     [HIGH_CPU, MEMORY_USAGE, DISK_USAGE, HOST_STATUS, HOST_UPTIME, UNAVAILABLE_SERVICES,
      ALERT_SUMMARY, GRAPH_REQUEST, HOST_MAINTENANCE]"
  by (simp add: intent_patterns_def)

lemma intent_distinct: "distinct (map fst intent_patterns)"
  by (simp add: intent_order)

text \<open>
  Claim C2. The table lists the intents in the order HighCpu, MemoryUsage, DiskUsage,
  HostStatus, HostUptime, UnavailableServices, AlertSummary, GraphRequest, HostMaintenance;
  \<open>detect_intent\<close> returns the first intent of the table one of whose patterns is found
  in the lower-cased text, and GeneralQuery when no pattern of any intent is found; so a
  text in which patterns of two intents are found never resolves to the later-declared one.
\<close>

theorem detect_intent_declaration_order:
  "map fst intent_patterns =
     [HIGH_CPU, MEMORY_USAGE, DISK_USAGE, HOST_STATUS, HOST_UPTIME, UNAVAILABLE_SERVICES,
      ALERT_SUMMARY, GRAPH_REQUEST, HOST_MAINTENANCE]
   \<and> (\<forall>k<length intent_patterns.
        (\<exists>p\<in>set (snd (intent_patterns ! k)). re_search p (lower q) \<noteq> None) \<and>
        (\<forall>j<k. \<forall>p\<in>set (snd (intent_patterns ! j)). re_search p (lower q) = None)
        \<longrightarrow> detect_intent q = fst (intent_patterns ! k))
   \<and> ((\<forall>k<length intent_patterns.
         \<forall>p\<in>set (snd (intent_patterns ! k)). re_search p (lower q) = None)
        \<longrightarrow> detect_intent q = GENERAL_QUERY)
   \<and> (\<forall>j k. j < k \<and> k < length intent_patterns \<and>
        (\<exists>p\<in>set (snd (intent_patterns ! j)). re_search p (lower q) \<noteq> None)
        \<longrightarrow> detect_intent q \<noteq> fst (intent_patterns ! k))"
proof (intro conjI allI impI)
  show "map fst intent_patterns =
     [HIGH_CPU, MEMORY_USAGE, DISK_USAGE, HOST_STATUS, HOST_UPTIME, UNAVAILABLE_SERVICES,
      ALERT_SUMMARY, GRAPH_REQUEST, HOST_MAINTENANCE]"
    by (rule intent_order)
next
  fix k
  assume k: "k < length intent_patterns"
    and h: "(\<exists>p\<in>set (snd (intent_patterns ! k)). re_search p (lower q) \<noteq> None) \<and>
        (\<forall>j<k. \<forall>p\<in>set (snd (intent_patterns ! j)). re_search p (lower q) = None)"
  from h have "any_pattern (snd (intent_patterns ! k)) (lower q)"
    and "\<forall>j<k. \<not> any_pattern (snd (intent_patterns ! j)) (lower q)"
    by (simp_all add: any_pattern_iff)
  with k show "detect_intent q = fst (intent_patterns ! k)"
    unfolding detect_intent_def by (rule scan_intents_first)
next
  assume "\<forall>k<length intent_patterns.
         \<forall>p\<in>set (snd (intent_patterns ! k)). re_search p (lower q) = None"
  then have "\<forall>k<length intent_patterns. \<not> any_pattern (snd (intent_patterns ! k)) (lower q)"
    by (simp add: any_pattern_iff)
  then show "detect_intent q = GENERAL_QUERY"
    unfolding detect_intent_def by (rule scan_intents_none)
next
  fix j k
  assume h: "j < k \<and> k < length intent_patterns \<and>
        (\<exists>p\<in>set (snd (intent_patterns ! j)). re_search p (lower q) \<noteq> None)"
  then have j: "j < length intent_patterns"
    and hit: "any_pattern (snd (intent_patterns ! j)) (lower q)"
    by (simp_all add: any_pattern_iff)
  from scan_intents_not_later [OF j hit] obtain i where
    i: "i \<le> j" "detect_intent q = fst (intent_patterns ! i)"
    unfolding detect_intent_def by blast
  from i h have ik: "i < length intent_patterns" "k < length intent_patterns" "i \<noteq> k"
    by simp_all
  have "fst (intent_patterns ! i) \<noteq> fst (intent_patterns ! k)"
    using nth_eq_iff_index_eq [OF intent_distinct, of i k] ik by simp
  with i show "detect_intent q \<noteq> fst (intent_patterns ! k)" by simp
qed

lemma order_witness_hit_cpu: "(0::nat) < 3 \<and> 3 < length intent_patterns \<and>
        (\<exists>p\<in>set (snd (intent_patterns ! 0)). re_search p (lower ''hosts com cpu alta e status'') \<noteq> None)"
  by code_simp
lemma order_witness_hit_status: "(\<exists>p\<in>set (snd (intent_patterns ! 3)). re_search p (lower ''hosts com cpu alta e status'') \<noteq> None)"
  by code_simp
lemma order_witness_keys: "fst (intent_patterns ! 3) = HOST_STATUS" "fst (intent_patterns ! 0) = HIGH_CPU"
  by code_simp+
lemma order_witness_no_hit: "\<forall>k<length intent_patterns.
         \<forall>p\<in>set (snd (intent_patterns ! k)). re_search p (lower ''oi'') = None"
  by code_simp

theorem detect_intent_declaration_order_witness:
  "(\<exists>p\<in>set (snd (intent_patterns ! 0)). re_search p (lower ''hosts com cpu alta e status'') \<noteq> None)
   \<and> (\<exists>p\<in>set (snd (intent_patterns ! 3)). re_search p (lower ''hosts com cpu alta e status'') \<noteq> None)
   \<and> detect_intent ''hosts com cpu alta e status'' = HIGH_CPU
   \<and> detect_intent ''hosts com cpu alta e status'' \<noteq> HOST_STATUS
   \<and> detect_intent ''oi'' = GENERAL_QUERY"
proof -
  let ?q = "''hosts com cpu alta e status''"
  note T = detect_intent_declaration_order [of ?q]
  have a: "(0::nat) < 3 \<and> 3 < length intent_patterns \<and>
        (\<exists>p\<in>set (snd (intent_patterns ! 0)). re_search p (lower ?q) \<noteq> None)" by (rule order_witness_hit_cpu)
  have b: "(0::nat) < length intent_patterns" by code_simp
  have c: "(\<exists>p\<in>set (snd (intent_patterns ! 0)). re_search p (lower ?q) \<noteq> None) \<and>
        (\<forall>j<0::nat. \<forall>p\<in>set (snd (intent_patterns ! j)). re_search p (lower ?q) = None)"
    using a by simp
  from T b c have "detect_intent ?q = fst (intent_patterns ! 0)" by blast
  moreover from T a have "detect_intent ?q \<noteq> fst (intent_patterns ! 3)" by blast
  moreover from detect_intent_declaration_order [of "''oi''"] order_witness_no_hit
  have "detect_intent ''oi'' = GENERAL_QUERY" by blast
  ultimately show ?thesis using order_witness_hit_status order_witness_keys a by simp
qed

section \<open>Properties of the matcher and of host extraction\<close>

lemma re_match_in_matches:
  "re_match r s = Some g \<Longrightarrow> \<exists>rest. (g, rest) \<in> set (matches r s [])"
  by (auto simp: re_match_def split: list.splits)

lemma re_search_suffix:
  "re_search r s = Some g \<Longrightarrow> \<exists>t. suffix t s \<and> re_match r t = Some g"
proof (induction s)
  case Nil
  then show ?case by auto
next
  case (Cons c cs)
  show ?case
  proof (cases "re_match r (c # cs)")
    case None
    with Cons.prems have "re_search r cs = Some g" by simp
    from Cons.IH [OF this] obtain t where "suffix t cs" "re_match r t = Some g" by blast
    then show ?thesis by (auto intro: suffix_ConsI)
  next
    case (Some g')
    with Cons.prems have "g' = g" by simp
    with Some show ?thesis by auto
  qed
qed

lemma matches_Seq_last:
  "(g, rest) \<in> set (matches (Seq r1 r2) s g0) \<Longrightarrow>
   \<exists>g1 s1. (g1, s1) \<in> set (matches r1 s g0) \<and> (g, rest) \<in> set (matches r2 s1 g1)"
  by auto

lemma matches_Grp_Plus:
  assumes "(g, rest) \<in> set (matches (Grp k (Plus a)) s g0)"
  shows "\<exists>t. g = (k, t) # g0 \<and> t \<noteq> [] \<and> (\<forall>c\<in>set t. atom_ok a c)"
proof -
  let ?w = "takeWhile (atom_ok a) s"
  from assms obtain n where n: "1 \<le> n" "n \<le> length ?w"
    and g: "g = (k, take (length s - length (drop n s)) s) # g0"
    by auto
  have len: "length ?w \<le> length s" by (rule length_takeWhile_le)
  with n have "length s - length (drop n s) = n" by simp
  with g have g': "g = (k, take n s) # g0" by simp
  have "take n s = take n ?w"
  proof -
    have "take n (?w @ dropWhile (atom_ok a) s) = take n ?w"
      using n by (simp del: takeWhile_dropWhile_id)
    then show ?thesis by simp
  qed
  moreover have "\<forall>c\<in>set (take n ?w). atom_ok a c"
    by (meson in_set_takeD set_takeWhileD)
  moreover have "take n s \<noteq> []" using n len by auto
  ultimately show ?thesis using g' by auto
qed

lemma host_pattern_shape:
  "\<exists>A B. host_pattern = Seq A (Seq B (Grp 1 (Plus host_class)))"
  by (simp add: host_pattern_def seqs_def)

lemma extract_host_class:
  assumes "extract_host q = Some h"
  shows "h \<noteq> [] \<and> (\<forall>c\<in>set h. atom_ok host_class c)"
proof -
  from assms obtain g where g: "re_search host_pattern (lower q) = Some g" and h: "h = group g 1"
    by (auto simp: extract_host_def split: option.splits)
  from re_search_suffix [OF g] obtain t where "re_match host_pattern t = Some g" by blast
  from re_match_in_matches [OF this] obtain rest where
    m: "(g, rest) \<in> set (matches host_pattern t [])" by blast
  obtain A B where hp: "host_pattern = Seq A (Seq B (Grp 1 (Plus host_class)))"
    using host_pattern_shape by blast
  from m obtain g1 s1 where "(g, rest) \<in> set (matches (Seq B (Grp 1 (Plus host_class))) s1 g1)"
    unfolding hp using matches_Seq_last by blast
  then obtain g2 s2 where "(g, rest) \<in> set (matches (Grp 1 (Plus host_class)) s2 g2)"
    using matches_Seq_last by blast
  from matches_Grp_Plus [OF this] obtain w where
    "g = (1, w) # g2" "w \<noteq> []" "\<forall>c\<in>set w. atom_ok host_class c" by blast
  then show ?thesis using h by (simp add: group_def)
qed

lemma ranges_enum:
  "\<forall>n\<in>set [97 ..< 123]. char_of (n::nat) \<in> set ''abcdefghijklmnopqrstuvwxyz''"
  "\<forall>n\<in>set [65 ..< 91]. char_of (n::nat) \<in> set ''ABCDEFGHIJKLMNOPQRSTUVWXYZ''"
  "\<forall>n\<in>set [48 ..< 58]. char_of (n::nat) \<in> set ''0123456789''"
  by code_simp+

lemma ord_codes: "ord CHR ''a'' = 97" "ord CHR ''z'' = 122" "ord CHR ''A'' = 65" "ord CHR ''Z'' = 90"
  "ord CHR ''0'' = 48" "ord CHR ''9'' = 57"
  by (simp_all add: ord_def)

lemma char_of_ord: "char_of (ord c) = c"
  by (simp add: ord_def)

lemma host_class_chars:
  assumes "atom_ok host_class c"
  shows "c \<in> set host_alphabet"
proof -
  from assms consider "97 \<le> ord c \<and> ord c \<le> 122" | "65 \<le> ord c \<and> ord c \<le> 90"
    | "48 \<le> ord c \<and> ord c \<le> 57" | "c = CHR ''-''" | "c = CHR ''_''" | "c = CHR ''.''"
    by (auto simp: host_class_def ord_codes)
  then show ?thesis
  proof cases
    case 1
    then have "ord c \<in> set [97 ..< 123]" unfolding set_upt by simp
    with ranges_enum(1) have "char_of (ord c) \<in> set ''abcdefghijklmnopqrstuvwxyz''" by blast
    then show ?thesis by (simp only: char_of_ord host_alphabet_def set_append Un_iff) blast
  next
    case 2
    then have "ord c \<in> set [65 ..< 91]" unfolding set_upt by simp
    with ranges_enum(2) have "char_of (ord c) \<in> set ''ABCDEFGHIJKLMNOPQRSTUVWXYZ''" by blast
    then show ?thesis by (simp only: char_of_ord host_alphabet_def set_append Un_iff) blast
  next
    case 3
    then have "ord c \<in> set [48 ..< 58]" unfolding set_upt by simp
    with ranges_enum(3) have "char_of (ord c) \<in> set ''0123456789''" by blast
    then show ?thesis by (simp only: char_of_ord host_alphabet_def set_append Un_iff) blast
  qed (simp_all add: host_alphabet_def)
qed

section \<open>Properties of SQL synthesis\<close>



lemma extract_host_nonempty: "extract_host q = Some h \<Longrightarrow> h \<noteq> []"
  using extract_host_class by blast



lemma generate_sql_with_host:
  assumes "extract_host q = Some h" and "generate_sql now q = Inr (s, ctx)"
  shows "map_of ctx ''host_pattern'' = Some (CStr (''%'' @ h @ ''%''))"
    and "\<exists>a b. s = a @ '' AND h.name LIKE :host_pattern'' @ b
               \<or> s = a @ '' WHERE h.name LIKE :host_pattern'' @ b"
proof -
  have ne: "h \<noteq> []" using assms(1) by (rule extract_host_nonempty)
  show "map_of ctx ''host_pattern'' = Some (CStr (''%'' @ h @ ''%''))"
    using assms ne
    by (cases "extract_time_range now q"; cases "detect_intent q";
        simp add: generate_sql_def Let_def add_host_filter_def finish_sql_def update_conv';
        fastforce)
  show "\<exists>a b. s = a @ '' AND h.name LIKE :host_pattern'' @ b
               \<or> s = a @ '' WHERE h.name LIKE :host_pattern'' @ b"
    using assms ne
    by (cases "extract_time_range now q"; cases "detect_intent q";
        simp add: generate_sql_def Let_def add_host_filter_def finish_sql_def update_conv';
        blast)
qed

lemma digit_chars:
  "char_of (48::nat) = CHR ''0''" "char_of (49::nat) = CHR ''1''" "char_of (50::nat) = CHR ''2''"
  "char_of (51::nat) = CHR ''3''" "char_of (52::nat) = CHR ''4''" "char_of (53::nat) = CHR ''5''"
  "char_of (54::nat) = CHR ''6''" "char_of (55::nat) = CHR ''7''" "char_of (56::nat) = CHR ''8''"
  "char_of (57::nat) = CHR ''9''"
  by code_simp+


lemma range_before_day:
  "range_before now (Inr 86400) l =
     Inr \<lparr>from_timestamp = int now - 86400, to_timestamp = int now, time_period = l\<rparr>"
  by (simp add: range_before_def datetime_sub_def timestamp_def datetime_min_def)


lemma match_24h: "re_match period_regex (lower ''24h'') = Some [(2, ''h''), (1, ''24'')]"
  by code_simp


lemma from_period_24h:
  "from_period now ''24h'' =
     Inr \<lparr>from_timestamp = int now - 86400, to_timestamp = int now, time_period = ''24h''\<rparr>"
  by (simp add: from_period_def match_24h group_def py_int_def ord_def timedelta_def
        range_before_day digit_chars)


lemma extract_time_range_default:
  "re_search period_pattern (lower q) = None \<Longrightarrow>
   extract_time_range now q =
     Inr \<lparr>from_timestamp = int now - 86400, to_timestamp = int now, time_period = ''24h''\<rparr>"
  by (simp add: extract_time_range_def from_period_24h)

lemma alphabet_plain:
  "\<forall>c\<in>set host_alphabet.
     \<not> is_space c \<and> c \<noteq> CHR 0x27 \<and> c \<noteq> CHR 0x22 \<and> c \<noteq> CHR ''%''"
  by code_simp


lemma eval_status_host_web01:
  "detect_intent ''status do host web01'' = HOST_STATUS"
  "extract_host ''status do host web01'' = Some ''web01''"
  "re_search period_pattern (lower ''status do host web01'') = None"
  by code_simp+

lemma eval_host_web_01:
  "detect_intent ''host web_01'' = GENERAL_QUERY"
  "extract_host ''host web_01'' = Some ''web_01''"
  "re_search period_pattern (lower ''host web_01'') = None"
  by code_simp+



lemma generate_sql_status_host_web01:
  "generate_sql now ''status do host web01'' =
     Inr (sql_host_status @ '' WHERE h.name LIKE :host_pattern'' @ '' ORDER BY h.name;'',
          [(''intent'', CIntent HOST_STATUS), (''query'', CStr ''status do host web01''),
           (''host'', CStr ''web01''),
           (''time_range'', CRange \<lparr>from_timestamp = int now - 86400, to_timestamp = int now,
                                     time_period = ''24h''\<rparr>),
           (''host_pattern'', CStr ''%web01%'')])"
  by (simp add: generate_sql_def eval_status_host_web01 extract_time_range_default
        add_host_filter_def finish_sql_def)

lemma generate_sql_host_web_01:
  "generate_sql now ''host web_01'' =
     Inr (sql_general @ '' AND h.name LIKE :host_pattern'' @ '' ORDER BY h.name;'',
          [(''intent'', CIntent GENERAL_QUERY), (''query'', CStr ''host web_01''),
           (''host'', CStr ''web_01''),
           (''time_range'', CRange \<lparr>from_timestamp = int now - 86400, to_timestamp = int now,
                                     time_period = ''24h''\<rparr>),
           (''host_pattern'', CStr ''%web_01%'')])"
  by (simp add: generate_sql_def eval_host_web_01 extract_time_range_default
        add_host_filter_def finish_sql_def)






text \<open>
  Claim C10 (as amended). A host that \<open>extract_host\<close> returns is a non-empty string of
  ASCII letters, digits, dash, underscore and dot; it has no whitespace, quote or percent
  sign, so that the \<open>host_pattern\<close> entry \<open>%host%\<close> which \<open>generate_sql\<close> binds has exactly
  its two enclosing percent signs; the only \<open>LIKE\<close> wildcard the host itself can contain
  is the underscore.
\<close>

theorem extract_host_alphabet:
  assumes "extract_host q = Some h"
  shows "h \<noteq> [] \<and> set h \<subseteq> set host_alphabet
       \<and> (\<forall>c\<in>set h. \<not> is_space c \<and> c \<noteq> CHR 0x27 \<and> c \<noteq> CHR 0x22 \<and> c \<noteq> CHR ''%'')
       \<and> count_list (''%'' @ h @ ''%'') CHR ''%'' = 2
       \<and> (\<forall>c\<in>set h. like_wildcard c \<longrightarrow> c = CHR ''_'')
       \<and> (\<forall>s ctx. generate_sql now q = Inr (s, ctx) \<longrightarrow>
             map_of ctx ''host_pattern'' = Some (CStr (''%'' @ h @ ''%'')))"
proof -
  from extract_host_class [OF assms] have ne: "h \<noteq> []"
    and cls: "\<forall>c\<in>set h. atom_ok host_class c" by simp_all
  have sub: "set h \<subseteq> set host_alphabet"
    using cls host_class_chars by blast
  have plain: "\<forall>c\<in>set h. \<not> is_space c \<and> c \<noteq> CHR 0x27 \<and> c \<noteq> CHR 0x22 \<and> c \<noteq> CHR ''%''"
    using sub alphabet_plain by blast
  then have "CHR ''%'' \<notin> set h" by blast
  then have "count_list h CHR ''%'' = 0" by (simp add: count_list_0_iff)
  then have cnt: "count_list (''%'' @ h @ ''%'') CHR ''%'' = 2" by simp
  have wild: "\<forall>c\<in>set h. like_wildcard c \<longrightarrow> c = CHR ''_''"
    using plain by (auto simp: like_wildcard_def)
  have bind: "\<forall>s ctx. generate_sql now q = Inr (s, ctx) \<longrightarrow>
             map_of ctx ''host_pattern'' = Some (CStr (''%'' @ h @ ''%''))"
    using generate_sql_with_host(1) [OF assms] by blast
  from ne sub plain cnt wild bind show ?thesis by blast
qed

theorem extract_host_alphabet_witness:
  "extract_host ''status do host web01'' = Some ''web01''
   \<and> set ''web01'' \<subseteq> set host_alphabet
   \<and> count_list ''%web01%'' CHR ''%'' = 2
   \<and> map_of [(''intent'', CIntent HOST_STATUS), (''query'', CStr ''status do host web01''),
           (''host'', CStr ''web01''),
           (''time_range'', CRange \<lparr>from_timestamp = 1699913600, to_timestamp = 1700000000,
                                     time_period = ''24h''\<rparr>),
           (''host_pattern'', CStr ''%web01%'')] ''host_pattern'' = Some (CStr ''%web01%'')"
proof -
  have h: "extract_host ''status do host web01'' = Some ''web01''"
    by (rule eval_status_host_web01(2))
  have g: "generate_sql 1700000000 ''status do host web01'' =
     Inr (sql_host_status @ '' WHERE h.name LIKE :host_pattern'' @ '' ORDER BY h.name;'',
          [(''intent'', CIntent HOST_STATUS), (''query'', CStr ''status do host web01''),
           (''host'', CStr ''web01''),
           (''time_range'', CRange \<lparr>from_timestamp = 1699913600, to_timestamp = 1700000000,
                                     time_period = ''24h''\<rparr>),
           (''host_pattern'', CStr ''%web01%'')])"
    using generate_sql_status_host_web01 [of 1700000000] by simp
  note T = extract_host_alphabet [OF h, of 1700000000]
  from T have "set ''web01'' \<subseteq> set host_alphabet" by blast
  moreover from T have "count_list (''%'' @ ''web01'' @ ''%'') CHR ''%'' = 2" by blast
  moreover from T g have "map_of [(''intent'', CIntent HOST_STATUS),
           (''query'', CStr ''status do host web01''),
           (''host'', CStr ''web01''),
           (''time_range'', CRange \<lparr>from_timestamp = 1699913600, to_timestamp = 1700000000,
                                     time_period = ''24h''\<rparr>),
           (''host_pattern'', CStr ''%web01%'')] ''host_pattern''
        = Some (CStr (''%'' @ ''web01'' @ ''%''))" by blast
  ultimately show ?thesis using h by simp
qed

theorem host_pattern_underscore_counterexample:
  "extract_host ''host web_01'' = Some ''web_01''
   \<and> generate_sql 1700000000 ''host web_01'' =
     Inr (sql_general @ '' AND h.name LIKE :host_pattern'' @ '' ORDER BY h.name;'',
          [(''intent'', CIntent GENERAL_QUERY), (''query'', CStr ''host web_01''),
           (''host'', CStr ''web_01''),
           (''time_range'', CRange \<lparr>from_timestamp = 1699913600, to_timestamp = 1700000000,
                                     time_period = ''24h''\<rparr>),
           (''host_pattern'', CStr ''%web_01%'')])
   \<and> ''%web_01%'' ! 4 = CHR ''_''
   \<and> like_wildcard (''%web_01%'' ! 4)"
  using generate_sql_host_web_01 [of 1700000000]
  by (simp add: eval_host_web_01 like_wildcard_def)



section \<open>Properties of the time-range resolver\<close>


lemma unit_class:
  "atom_ok (Cls [Ch CHR ''d'', Ch CHR ''h'', Ch CHR ''m'']) c = (c \<in> set ''dhm'')"
  by auto
















lemma eval_period_tokens:
  "spec_period_token ''3h''" "spec_period_token ''03h''" "spec_period_token ''0h''"
  "\<not> spec_period_token ''3hx''" "\<not> period_prefix (lower ''abc'')"
  "re_match period_regex (lower ''3hx'') = Some [(2, ''h''), (1, ''3'')]"
  "re_match period_regex (lower ''9999999999d'') = Some [(2, ''d''), (1, ''9999999999'')]"
  by code_simp+

lemma py_int_examples:
  "py_int ''3'' = 3" "py_int ''03'' = 3" "py_int ''0'' = 0" "py_int ''9999999999'' = 9999999999"
  by (simp_all add: py_int_def ord_def)







section \<open>Properties of API-call synthesis\<close>














section \<open>Properties of the query endpoint\<close>

lemma eval_maintenance_no_host:
  "detect_intent query_maintenance_no_host = HOST_MAINTENANCE"
  "extract_host query_maintenance_no_host = None"
  "re_search period_pattern (lower query_maintenance_no_host) = None"
  by code_simp+

lemma eval_maintenance_long_ago:
  "detect_intent query_maintenance_long_ago = HOST_MAINTENANCE"
  "extract_host query_maintenance_long_ago = None"
  "re_search period_pattern (lower query_maintenance_long_ago)
     = Some [(2, ''dias''), (1, ''9999999999'')]"
  by code_simp+

lemma py_str_ten_digits: "py_str 9999999999 = ''9999999999''"
  by (simp add: digit_chars)

lemma from_period_overflow: "from_period now ''9999999999d'' = Inl OverflowError"
  by (simp add: from_period_def eval_period_tokens(7) group_def py_int_examples
        timedelta_def range_before_def)

lemma extract_time_range_long_ago:
  "extract_time_range now query_maintenance_long_ago = Inl OverflowError"
proof -
  have "lower ''d'' = ''d''" by code_simp
  then show ?thesis
    by (simp add: extract_time_range_def eval_maintenance_long_ago group_def py_int_examples
          first_chr_def py_str_ten_digits from_period_overflow del: py_str.simps)
qed

lemma example_env_fields:
  "clock example_env = 1700000000" "elapsed example_env = ''0.00''"
  "clock_end example_env = 1700000000" "environment example_env = ''development''"
  "clock example_env_other_draws = 1700000000" "elapsed example_env_other_draws = ''0.00''"
  "clock_end example_env_other_draws = 1700000000"
  "environment example_env_other_draws = ''development''"
  "randint example_env k = 10" "randint example_env_other_draws k = 90"
  by (simp_all add: example_env_def example_env_other_draws_def)

lemma py_str_clock: "py_str 1700000000 = ''1700000000''"
  by (simp add: digit_chars)

text \<open>
  Claim C6 (as amended). For every query whose intent is HostMaintenance, for which no
  host is extracted and whose time range resolves, \<open>process_query\<close> returns (it does not
  raise) a response whose text asks for the host, followed by the timing note outside
  production, with empty data, no SQL and no chart; nothing of it depends on the Zabbix
  client or on the synthesizers.
\<close>

theorem maintenance_without_host:
  assumes "detect_intent q = HOST_MAINTENANCE"
    and "extract_host q = None"
    and "extract_time_range (clock E) q = Inr tr"
  shows "process_query E q cid =
     Inr \<lparr>response = ''Por favor, especifique qual host deseja colocar em '' @
                      manutencao_txt @ ''.'' @ timing_note E,
          data = [], sql = None, charts = None,
          conversation_id =
            Some (case cid of
                    None \<Rightarrow> ''zabbia-'' @ py_str (clock_end E)
                  | Some c \<Rightarrow> if c \<noteq> [] then c else ''zabbia-'' @ py_str (clock_end E))\<rparr>"
  using assms by (simp add: process_query_def maintenance_answer_def Let_def del: py_str.simps)

theorem maintenance_without_host_witness:
  "detect_intent query_maintenance_no_host = HOST_MAINTENANCE
   \<and> extract_host query_maintenance_no_host = None
   \<and> process_query example_env query_maintenance_no_host None =
     Inr \<lparr>response = ''Por favor, especifique qual host deseja colocar em '' @
                      manutencao_txt @ ''.'' @ [CHR 0x0A, CHR 0x0A] @
                      ''Consulta processada em 0.00 segundos.'',
          data = [], sql = None, charts = None,
          conversation_id = Some ''zabbia-1700000000''\<rparr>"
proof -
  have r: "extract_time_range (clock example_env) query_maintenance_no_host =
     Inr \<lparr>from_timestamp = int (clock example_env) - 86400,
          to_timestamp = int (clock example_env), time_period = ''24h''\<rparr>"
    using eval_maintenance_no_host(3) by (rule extract_time_range_default)
  from maintenance_without_host [OF eval_maintenance_no_host(1,2) r, of None]
  show ?thesis
    by (simp add: eval_maintenance_no_host timing_note_def example_env_fields py_str_clock
          del: py_str.simps)
qed

theorem maintenance_without_host_counterexample:
  "detect_intent query_maintenance_long_ago = HOST_MAINTENANCE
   \<and> extract_host query_maintenance_long_ago = None
   \<and> process_query example_env query_maintenance_long_ago None
       = Inl (HTTPException 500 OverflowError)"
  by (simp add: eval_maintenance_long_ago process_query_def extract_time_range_long_ago)

lemma eval_oi:
  "detect_intent ''oi'' = GENERAL_QUERY"
  "extract_host ''oi'' = None"
  "re_search period_pattern (lower ''oi'') = None"
  by code_simp+

lemma generate_sql_oi:
  "generate_sql now ''oi'' =
     Inr (sql_general @ '' ORDER BY h.name;'',
          [(''intent'', CIntent GENERAL_QUERY), (''query'', CStr ''oi''),
           (''time_range'', CRange \<lparr>from_timestamp = int now - 86400, to_timestamp = int now,
                                     time_period = ''24h''\<rparr>)])"
  by (simp add: generate_sql_def eval_oi extract_time_range_default
        add_host_filter_def finish_sql_def)

lemma generate_api_call_none:
  assumes "detect_intent q = GENERAL_QUERY \<or> detect_intent q = DISK_USAGE"
    and "extract_time_range now q = Inr tr"
  shows "generate_api_call now q = Inr (None, [])"
  using assms by (auto simp: generate_api_call_def Let_def)

text \<open>
  Claim C8 (as amended). For every query classified as GeneralQuery or DiskUsage whose
  time range resolves, \<open>generate_api_call\<close> yields no method and no params, and
  \<open>process_query\<close> returns (it does not raise) the fixed fallback text, followed by the
  timing note outside production, with empty data, no SQL and no chart. \<open>generate_sql\<close>
  on such a query emits a statement that begins with the generic host listing.
\<close>

theorem general_query_fallback:
  assumes "detect_intent q = GENERAL_QUERY \<or> detect_intent q = DISK_USAGE"
    and "extract_time_range (clock E) q = Inr tr"
  shows "generate_api_call (clock E) q = Inr (None, [])
       \<and> process_query E q cid =
           Inr \<lparr>response = ''N'' @ [a_tilde] @ ''o consegui entender sua consulta. '' @
                            ''Pode reformular de outra forma?'' @ timing_note E,
                data = [], sql = None, charts = None,
                conversation_id =
                  Some (case cid of
                          None \<Rightarrow> ''zabbia-'' @ py_str (clock_end E)
                        | Some c \<Rightarrow> if c \<noteq> [] then c
                                    else ''zabbia-'' @ py_str (clock_end E))\<rparr>
       \<and> (\<exists>s ctx. generate_sql (clock E) q = Inr (s, ctx) \<and> prefix sql_general s)"
proof (intro conjI)
  show api: "generate_api_call (clock E) q = Inr (None, [])"
    using assms by (rule generate_api_call_none)
  show "process_query E q cid =
           Inr \<lparr>response = ''N'' @ [a_tilde] @ ''o consegui entender sua consulta. '' @
                            ''Pode reformular de outra forma?'' @ timing_note E,
                data = [], sql = None, charts = None,
                conversation_id =
                  Some (case cid of
                          None \<Rightarrow> ''zabbia-'' @ py_str (clock_end E)
                        | Some c \<Rightarrow> if c \<noteq> [] then c
                                    else ''zabbia-'' @ py_str (clock_end E))\<rparr>"
    using assms api
    by (auto simp: process_query_def general_answer_def truthy_def Let_def
             simp del: py_str.simps)
  show "\<exists>s ctx. generate_sql (clock E) q = Inr (s, ctx) \<and> prefix sql_general s"
    using assms
    by (cases "extract_host q")
       (auto simp: generate_sql_def Let_def add_host_filter_def finish_sql_def)
qed

theorem general_query_fallback_witness:
  "detect_intent ''oi'' = GENERAL_QUERY
   \<and> generate_api_call 1700000000 ''oi'' = Inr (None, [])
   \<and> process_query example_env ''oi'' None =
        Inr \<lparr>response = ''N'' @ [a_tilde] @ ''o consegui entender sua consulta. '' @
                         ''Pode reformular de outra forma?'' @ [CHR 0x0A, CHR 0x0A] @
                         ''Consulta processada em 0.00 segundos.'',
             data = [], sql = None, charts = None,
             conversation_id = Some ''zabbia-1700000000''\<rparr>"
proof -
  have i: "detect_intent ''oi'' = GENERAL_QUERY \<or> detect_intent ''oi'' = DISK_USAGE"
    by (simp add: eval_oi)
  have r: "extract_time_range (clock example_env) ''oi'' =
     Inr \<lparr>from_timestamp = int (clock example_env) - 86400,
          to_timestamp = int (clock example_env), time_period = ''24h''\<rparr>"
    using eval_oi(3) by (rule extract_time_range_default)
  from general_query_fallback [OF i r, of None]
  show ?thesis
    by (simp add: eval_oi timing_note_def example_env_fields py_str_clock
          del: py_str.simps)
qed

theorem general_query_fallback_counterexample:
  "detect_intent ''oi'' = GENERAL_QUERY
   \<and> generate_sql 1700000000 ''oi'' =
     Inr (sql_general @ '' ORDER BY h.name;'',
          [(''intent'', CIntent GENERAL_QUERY), (''query'', CStr ''oi''),
           (''time_range'', CRange \<lparr>from_timestamp = 1699913600, to_timestamp = 1700000000,
                                     time_period = ''24h''\<rparr>)])"
  using generate_sql_oi [of 1700000000] by (simp add: eval_oi)

lemma client_ignores_draws:
  "get_host_by_name (E\<lparr>randint := r\<rparr>) = get_host_by_name E"
  "set_host_maintenance (E\<lparr>randint := r\<rparr>) = set_host_maintenance E"
  by simp_all

lemma maintenance_ignores_draws:
  "maintenance_answer (E\<lparr>randint := r\<rparr>) q h = maintenance_answer E q h"
  unfolding maintenance_answer_def client_ignores_draws by (rule refl)

lemma answers_ignore_draws:
  "sql_answer (E\<lparr>randint := r\<rparr>) q i h = sql_answer E q i h"
  "general_answer (E\<lparr>randint := r\<rparr>) q = general_answer E q"
  "timing_note (E\<lparr>randint := r\<rparr>) = timing_note E"
  by (simp_all add: sql_answer_def general_answer_def timing_note_def)

lemma readings_ignore_draws:
  "clock (E\<lparr>randint := r\<rparr>) = clock E"
  "clock_end (E\<lparr>randint := r\<rparr>) = clock_end E"
  by simp_all

text \<open>
  Claim C9 (as amended). Two runs of \<open>process_query\<close> on the same text, with the same
  conversation identifier from the caller, the same clock readings and processing time,
  the same settings and the same answers of the Zabbix client, return the same response
  whatever the random draws are, provided the intent is not GraphRequest.
\<close>

theorem response_independent_of_draws:
  assumes "detect_intent q \<noteq> GRAPH_REQUEST"
  shows "process_query (E\<lparr>randint := r\<rparr>) q cid = process_query E q cid"
proof -
  have note_eq: "timing_note (E\<lparr>randint := r\<rparr>) = timing_note E"
    and end_eq: "clock_end (E\<lparr>randint := r\<rparr>) = clock_end E"
    by (simp_all add: answers_ignore_draws)
  have "(case extract_time_range (clock (E\<lparr>randint := r\<rparr>)) q of
           Inl e \<Rightarrow> Inl e
         | Inr time_range \<Rightarrow>
             if detect_intent q = GRAPH_REQUEST then graph_answer (E\<lparr>randint := r\<rparr>) q
             else if detect_intent q = HOST_MAINTENANCE
               then maintenance_answer (E\<lparr>randint := r\<rparr>) q (extract_host q)
             else if detect_intent q \<in> set [HIGH_CPU, MEMORY_USAGE, HOST_STATUS, HOST_UPTIME,
                                              UNAVAILABLE_SERVICES, ALERT_SUMMARY]
               then sql_answer (E\<lparr>randint := r\<rparr>) q (detect_intent q) (extract_host q)
             else general_answer (E\<lparr>randint := r\<rparr>) q)
        = (case extract_time_range (clock E) q of
           Inl e \<Rightarrow> Inl e
         | Inr time_range \<Rightarrow>
             if detect_intent q = GRAPH_REQUEST then graph_answer E q
             else if detect_intent q = HOST_MAINTENANCE
               then maintenance_answer E q (extract_host q)
             else if detect_intent q \<in> set [HIGH_CPU, MEMORY_USAGE, HOST_STATUS, HOST_UPTIME,
                                              UNAVAILABLE_SERVICES, ALERT_SUMMARY]
               then sql_answer E q (detect_intent q) (extract_host q)
             else general_answer E q)"
    using assms
    by (simp only: maintenance_ignores_draws answers_ignore_draws readings_ignore_draws
          if_False)
  then show ?thesis
    unfolding process_query_def Let_def note_eq end_eq by (rule arg_cong)
qed

theorem response_independent_of_draws_witness:
  "detect_intent ''oi'' \<noteq> GRAPH_REQUEST
   \<and> process_query example_env_other_draws ''oi'' None = process_query example_env ''oi'' None"
  using response_independent_of_draws
          [where q = "''oi''" and E = example_env and r = "\<lambda>k. 90" and cid = None]
  by (simp add: eval_oi example_env_other_draws_def)

lemma eval_chart_cpu:
  "detect_intent ''grafico de cpu'' = GRAPH_REQUEST"
  "extract_host ''grafico de cpu'' = None"
  "re_search period_pattern (lower ''grafico de cpu'') = None"
  "sublist ''cpu'' (lower ''grafico de cpu'')"
  by code_simp+

lemma generate_graph_data_cpu:
  "generate_graph_data now ''grafico de cpu'' =
     Inr [(''chartType'', JStr ''line''), (''labels'', JList []),
          (''datasets'', JList [dataset ''CPU %'' ''#1f77b4'']),
          (''title'', JStr ''Uso de CPU'')]"
  by (simp add: generate_graph_data_def eval_chart_cpu extract_time_range_default
        host_suffix_def)

lemma hours_back: "rev [1 ..< 13] = [12, 11, 10, 9, 8, 7, 6, 5, 4, 3, 2, 1::nat]"
  by code_simp

lemma chart_labels:
  "map (\<lambda>i. JStr (strftime_hm (int (1700000000::nat) - 3600 * int i))) (rev [1 ..< 13]) =
     [JStr ''10:13'', JStr ''11:13'', JStr ''12:13'', JStr ''13:13'', JStr ''14:13'',
      JStr ''15:13'', JStr ''16:13'', JStr ''17:13'', JStr ''18:13'', JStr ''19:13'',
      JStr ''20:13'', JStr ''21:13'']"
  unfolding hours_back by (simp add: strftime_hm_def pad2_def digit_chars)

lemma draw_indices: "[0 ..< 12] = [0, 1, 2, 3, 4, 5, 6, 7, 8, 9, 10, 11::nat]"
  by code_simp

lemma graph_answer_cpu:
  assumes c: "clock E = 1700000000"
  shows "graph_answer E ''grafico de cpu'' =
     Inr (''Aqui est'' @ [a_acute] @ '' o gr'' @ [a_acute] @
          ''fico solicitado para Uso de CPU'',
          [], None,
          Some [JDict [(''chartType'', JStr ''line''),
                       (''labels'',
                          JList [JStr ''10:13'', JStr ''11:13'', JStr ''12:13'', JStr ''13:13'',
                                 JStr ''14:13'', JStr ''15:13'', JStr ''16:13'', JStr ''17:13'',
                                 JStr ''18:13'', JStr ''19:13'', JStr ''20:13'', JStr ''21:13'']),
                       (''datasets'',
                          JList [JDict [(''label'', JStr ''CPU %''),
                                        (''data'',
                                           JList (map (\<lambda>k. JInt (int (randint E k))) [0 ..< 12])),
                                        (''color'', JStr ''#1f77b4''),
                                        (''fill'', JBool False)]]),
                       (''title'', JStr ''Uso de CPU'')]])"
proof -
  let ?L = "JList [JStr ''10:13'', JStr ''11:13'', JStr ''12:13'', JStr ''13:13'',
                   JStr ''14:13'', JStr ''15:13'', JStr ''16:13'', JStr ''17:13'',
                   JStr ''18:13'', JStr ''19:13'', JStr ''20:13'', JStr ''21:13'']"
  let ?V = "JList (map (\<lambda>k. JInt (int (randint E k))) [0 ..< 12])"
  let ?d0 = "[(''label'', JStr ''CPU %''), (''data'', JList []), (''color'', JStr ''#1f77b4''),
              (''fill'', JBool False)]"
  let ?d1 = "[(''label'', JStr ''CPU %''), (''data'', ?V), (''color'', JStr ''#1f77b4''),
              (''fill'', JBool False)]"
  let ?c0 = "[(''chartType'', JStr ''line''), (''labels'', JList []),
              (''datasets'', JList [JDict ?d0]), (''title'', JStr ''Uso de CPU'')]"
  let ?c1 = "[(''chartType'', JStr ''line''), (''labels'', ?L),
              (''datasets'', JList [JDict ?d0]), (''title'', JStr ''Uso de CPU'')]"
  let ?c2 = "[(''chartType'', JStr ''line''), (''labels'', ?L),
              (''datasets'', JList [JDict ?d1]), (''title'', JStr ''Uso de CPU'')]"
  have g: "generate_graph_data (clock E) ''grafico de cpu'' = Inr ?c0"
    by (simp add: generate_graph_data_cpu dataset_def)
  have l: "JList (map (\<lambda>i. JStr (strftime_hm (int (clock E) - 3600 * int i))) (rev [1 ..< 13]))
           = ?L"
    unfolding c by (simp only: chart_labels)
  have u1: "AList.update ''labels'' ?L ?c0 = ?c1"
    by (simp del: upt_Suc upt_rec_numeral)
  have m1: "map_of ?c1 ''datasets'' = Some (JList (JDict ?d0 # []))"
    by (simp del: upt_Suc upt_rec_numeral)
  have u2: "AList.update ''data'' ?V ?d0 = ?d1"
    by (simp del: upt_Suc upt_rec_numeral)
  have u3: "AList.update ''datasets'' (JList (JDict ?d1 # [])) ?c1 = ?c2"
    by (simp del: upt_Suc upt_rec_numeral)
  have m2: "map_of ?c2 ''title'' = Some (JStr ''Uso de CPU'')"
    by (simp del: upt_Suc upt_rec_numeral)
  show ?thesis
    apply (simp only: graph_answer_def g sum.case l)
    apply (simp only: Let_def u1)
    apply (simp only: m1 option.case json.case list.case u2 u3 m2)
    apply (simp del: upt_Suc upt_rec_numeral)
    done
qed

theorem response_independent_of_draws_counterexample:
  "clock example_env_other_draws = clock example_env
   \<and> elapsed example_env_other_draws = elapsed example_env
   \<and> clock_end example_env_other_draws = clock_end example_env
   \<and> process_query example_env ''grafico de cpu'' None =
     Inr \<lparr>response = ''Aqui est'' @ [a_acute] @ '' o gr'' @ [a_acute] @
                      ''fico solicitado para Uso de CPU'' @ [CHR 0x0A, CHR 0x0A] @
                      ''Consulta processada em 0.00 segundos.'',
          data = [], sql = None,
          charts =
            Some [JDict [(''chartType'', JStr ''line''),
                         (''labels'',
                            JList [JStr ''10:13'', JStr ''11:13'', JStr ''12:13'', JStr ''13:13'',
                                   JStr ''14:13'', JStr ''15:13'', JStr ''16:13'', JStr ''17:13'',
                                   JStr ''18:13'', JStr ''19:13'', JStr ''20:13'', JStr ''21:13'']),
                         (''datasets'',
                            JList [JDict [(''label'', JStr ''CPU %''),
                                          (''data'',
                                             JList [JInt 10, JInt 10, JInt 10, JInt 10, JInt 10,
                                                    JInt 10, JInt 10, JInt 10, JInt 10, JInt 10,
                                                    JInt 10, JInt 10]),
                                          (''color'', JStr ''#1f77b4''),
                                          (''fill'', JBool False)]]),
                         (''title'', JStr ''Uso de CPU'')]],
          conversation_id = Some ''zabbia-1700000000''\<rparr>
   \<and> process_query example_env_other_draws ''grafico de cpu'' None =
     Inr \<lparr>response = ''Aqui est'' @ [a_acute] @ '' o gr'' @ [a_acute] @
                      ''fico solicitado para Uso de CPU'' @ [CHR 0x0A, CHR 0x0A] @
                      ''Consulta processada em 0.00 segundos.'',
          data = [], sql = None,
          charts =
            Some [JDict [(''chartType'', JStr ''line''),
                         (''labels'',
                            JList [JStr ''10:13'', JStr ''11:13'', JStr ''12:13'', JStr ''13:13'',
                                   JStr ''14:13'', JStr ''15:13'', JStr ''16:13'', JStr ''17:13'',
                                   JStr ''18:13'', JStr ''19:13'', JStr ''20:13'', JStr ''21:13'']),
                         (''datasets'',
                            JList [JDict [(''label'', JStr ''CPU %''),
                                          (''data'',
                                             JList [JInt 90, JInt 90, JInt 90, JInt 90, JInt 90,
                                                    JInt 90, JInt 90, JInt 90, JInt 90, JInt 90,
                                                    JInt 90, JInt 90]),
                                          (''color'', JStr ''#1f77b4''),
                                          (''fill'', JBool False)]]),
                         (''title'', JStr ''Uso de CPU'')]],
          conversation_id = Some ''zabbia-1700000000''\<rparr>"
proof -
  have r: "extract_time_range 1700000000 ''grafico de cpu'' =
     Inr \<lparr>from_timestamp = int 1700000000 - 86400,
          to_timestamp = int 1700000000, time_period = ''24h''\<rparr>"
    using eval_chart_cpu(3) by (rule extract_time_range_default)
  have i: "GRAPH_REQUEST \<noteq> HOST_MAINTENANCE" by simp
  have a: "graph_answer example_env ''grafico de cpu'' = Inr (''Aqui est'' @ [a_acute] @ '' o gr'' @ [a_acute] @
          ''fico solicitado para Uso de CPU'',
          [], None,
          Some [JDict [(''chartType'', JStr ''line''),
                       (''labels'',
                          JList [JStr ''10:13'', JStr ''11:13'', JStr ''12:13'', JStr ''13:13'',
                                 JStr ''14:13'', JStr ''15:13'', JStr ''16:13'', JStr ''17:13'',
                                 JStr ''18:13'', JStr ''19:13'', JStr ''20:13'', JStr ''21:13'']),
                       (''datasets'',
                          JList [JDict [(''label'', JStr ''CPU %''),
                                        (''data'',
                                             JList [JInt 10, JInt 10, JInt 10, JInt 10, JInt 10,
                                                    JInt 10, JInt 10, JInt 10, JInt 10, JInt 10,
                                                    JInt 10, JInt 10]),
                                        (''color'', JStr ''#1f77b4''),
                                        (''fill'', JBool False)]]),
                       (''title'', JStr ''Uso de CPU'')]])"
    by (simp add: graph_answer_cpu example_env_fields draw_indices del: upt_Suc upt_rec_numeral)
  have b: "graph_answer example_env_other_draws ''grafico de cpu'' = Inr (''Aqui est'' @ [a_acute] @ '' o gr'' @ [a_acute] @
          ''fico solicitado para Uso de CPU'',
          [], None,
          Some [JDict [(''chartType'', JStr ''line''),
                       (''labels'',
                          JList [JStr ''10:13'', JStr ''11:13'', JStr ''12:13'', JStr ''13:13'',
                                 JStr ''14:13'', JStr ''15:13'', JStr ''16:13'', JStr ''17:13'',
                                 JStr ''18:13'', JStr ''19:13'', JStr ''20:13'', JStr ''21:13'']),
                       (''datasets'',
                          JList [JDict [(''label'', JStr ''CPU %''),
                                        (''data'',
                                             JList [JInt 90, JInt 90, JInt 90, JInt 90, JInt 90,
                                                    JInt 90, JInt 90, JInt 90, JInt 90, JInt 90,
                                                    JInt 90, JInt 90]),
                                        (''color'', JStr ''#1f77b4''),
                                        (''fill'', JBool False)]]),
                       (''title'', JStr ''Uso de CPU'')]])"
    by (simp add: graph_answer_cpu example_env_fields draw_indices del: upt_Suc upt_rec_numeral)
  show ?thesis
    by (simp add: process_query_def eval_chart_cpu r a b timing_note_def example_env_fields
          py_str_clock del: py_str.simps)
qed

end
